theory Spec2Isabelle
  imports Main "HOL-Library.Word"
begin

section \<open>Heap files over a buffer manager: the model of heapfile.cpp\<close>

text \<open>
  The development follows \<^verbatim>\<open>src/heapFiles/heapfile.cpp\<close>. The file layer, the buffer
  manager and the page layer are collaborators whose code is not among the sources; they
  are modelled from section 6 of the specification. Every function of heapfile.cpp is
  translated branch by branch: an out-parameter is a component of the result, a local
  variable that the source leaves uninitialised is an argument of the model, a pointer to
  a buffer frame is the number of the page held by that frame, and a dereference of a null
  or wild page pointer is the outcome \<open>Undefined\<close>.
\<close>

subsection \<open>Statuses, record identifiers, records\<close>

text \<open>
  The statuses the heap layer names, and those of the collaborators that it passes
  through (the page layer's \<open>INVALIDSLOTNO\<close>, the buffer manager's \<open>BUFFEREXCEEDED\<close>,
  \<open>HASHTBLERROR\<close>, \<open>PAGENOTPINNED\<close>, the file layer's \<open>BADPAGENO\<close>, \<open>UNIXERR\<close>).
\<close>

datatype Status =
    OK | BADFILE | FILEEXISTS | BADSCANPARM | NOSPACE | INVALIDRECLEN | FILEEOF
  | NORECORDS | ENDOFPAGE | INVALIDSLOTNO | BUFFEREXCEEDED | HASHTBLERROR
  | PAGENOTPINNED | BADPAGENO | UNIXERR

record RID =
  pageNo :: int
  slotNo :: int

definition NULLRID :: RID where
  "NULLRID = \<lparr>pageNo = -1, slotNo = -1\<rparr>"

type_synonym byte = "8 word"

text \<open>A record is its bytes; \<^verbatim>\<open>rec.length\<close> is the length of the list.\<close>

type_synonym Record = "byte list"

text \<open>
  What a call can do besides returning: dereference a page pointer that is null or refers
  to no data page, or read outside the bytes of a record (\<open>Undefined\<close>), or loop longer
  than the fuel given (\<open>OutOfFuel\<close>).
\<close>

datatype 'a outcome = Ret 'a | Undefined | OutOfFuel

subsection \<open>The page layer\<close>

text \<open>
  Modelled from the spec: page.h and the page layer's code are not among the sources.
  \<open>PAGESIZE\<close> and \<open>DPFIXED\<close> have the values of the spec's scenario (1024 and 20).
  A data page has its own number, the link to the next page, a slot directory (a deleted
  slot is \<open>None\<close>) and the free space left; an empty page has
  \<open>PAGESIZE - DPFIXED\<close> bytes free. A record is addressed by the slot number of its RID
  on the page the caller holds. A new record takes the slot after the last one.
\<close>

definition PAGESIZE :: int where
  "PAGESIZE = 1024"

definition DPFIXED :: int where
  "DPFIXED = 20"

record DataPage =
  pgNo :: int
  nextPage :: int
  slot :: "Record option list"
  freeSpace :: int

definition Page_init :: "int \<Rightarrow> DataPage" where
  "Page_init pageNo' =
     \<lparr>pgNo = pageNo', nextPage = -1, slot = [], freeSpace = PAGESIZE - DPFIXED\<rparr>"

definition Page_insertRecord :: "DataPage \<Rightarrow> Record \<Rightarrow> RID \<Rightarrow> Status \<times> RID \<times> DataPage" where
  "Page_insertRecord pg rec rid =
     (if freeSpace pg < int (length rec) then (NOSPACE, rid, pg)
      else (OK, \<lparr>pageNo = pgNo pg, slotNo = int (length (slot pg))\<rparr>,
            pg\<lparr>slot := slot pg @ [Some rec],
               freeSpace := freeSpace pg - int (length rec)\<rparr>))"

definition live :: "DataPage \<Rightarrow> int \<Rightarrow> bool" where
  "live pg s = (0 \<le> s \<and> nat s < length (slot pg) \<and> slot pg ! nat s \<noteq> None)"

definition Page_deleteRecord :: "DataPage \<Rightarrow> RID \<Rightarrow> Status \<times> DataPage" where
  "Page_deleteRecord pg rid =
     (if live pg (slotNo rid) then
        (case slot pg ! nat (slotNo rid) of
           Some rec \<Rightarrow>
             (OK, pg\<lparr>slot := (slot pg)[nat (slotNo rid) := None],
                     freeSpace := freeSpace pg + int (length rec)\<rparr>)
         | None \<Rightarrow> (INVALIDSLOTNO, pg))
      else (INVALIDSLOTNO, pg))"

definition Page_getRecord :: "DataPage \<Rightarrow> RID \<Rightarrow> Status + Record" where
  "Page_getRecord pg rid =
     (if live pg (slotNo rid) then
        (case slot pg ! nat (slotNo rid) of Some rec \<Rightarrow> Inr rec | None \<Rightarrow> Inl INVALIDSLOTNO)
      else Inl INVALIDSLOTNO)"

text \<open>The first live slot at or after a position.\<close>

definition liveFrom :: "DataPage \<Rightarrow> nat \<Rightarrow> nat option" where
  "liveFrom pg i = List.find (\<lambda>j. slot pg ! j \<noteq> None) [i ..< length (slot pg)]"

definition Page_firstRecord :: "DataPage \<Rightarrow> RID \<Rightarrow> Status \<times> RID" where
  "Page_firstRecord pg firstRid =
     (case liveFrom pg 0 of
        Some j \<Rightarrow> (OK, \<lparr>pageNo = pgNo pg, slotNo = int j\<rparr>)
      | None \<Rightarrow> (NORECORDS, firstRid))"

definition Page_nextRecord :: "DataPage \<Rightarrow> RID \<Rightarrow> RID \<Rightarrow> Status \<times> RID" where
  "Page_nextRecord pg curRid nextRid =
     (case liveFrom pg (nat (slotNo curRid + 1)) of
        Some j \<Rightarrow> (OK, \<lparr>pageNo = pgNo pg, slotNo = int j\<rparr>)
      | None \<Rightarrow> (ENDOFPAGE, nextRid))"

text \<open>The number of live records of a page.\<close>

definition liveCount :: "DataPage \<Rightarrow> nat" where
  "liveCount pg = length (filter (\<lambda>r. r \<noteq> None) (slot pg))"

subsection \<open>Files and the buffer manager\<close>

text \<open>
  Modelled from the spec: the file layer and the buffer manager are not among the
  sources. A file is a sequence of pages, numbered from 0; its first page is page 0.
  A page is the header page, a data page, or a page just allocated.

  \<open>files\<close> holds every page as the handles read and write it: the contents of its
  frame while the page is in the pool, the contents on the disk otherwise. \<open>disk\<close>
  holds every page as it has been written to the disk; a page that was allocated and never
  written is \<open>Raw\<close> there. \<open>unPinPage\<close> decrements the pin count and, if
  \<open>dirty\<close>, marks the frame for writeback; \<open>marked\<close> lists the pages whose frame
  is marked, and a frame stays marked until it is written. The pool has \<open>numBufs\<close>
  frames; \<open>pinned\<close> has one entry for each pin outstanding. A page is pinned only if
  a frame is free or the page is pinned already.

\<close>

record FileHdrPage =
  fileName :: string
  firstPage :: int
  lastPage :: int
  pageCnt :: int
  recCnt :: int

datatype FilePage = Raw | Hdr FileHdrPage | Data DataPage

record World =
  files :: "string \<Rightarrow> FilePage list option"
  disk :: "string \<Rightarrow> FilePage list"
  marked :: "(string \<times> int) list"
  numBufs :: nat
  pinned :: "(string \<times> int) list"

definition createFile :: "World \<Rightarrow> string \<Rightarrow> Status + World" where
  "createFile w name =
     (case files w name of
        Some _ \<Rightarrow> Inl FILEEXISTS
      | None \<Rightarrow> Inr (w\<lparr>files := (files w)(name \<mapsto> []), disk := (disk w)(name := [])\<rparr>))"

definition openFile :: "World \<Rightarrow> string \<Rightarrow> Status + string" where
  "openFile w name = (case files w name of Some _ \<Rightarrow> Inr name | None \<Rightarrow> Inl UNIXERR)"

definition getFirstPage :: "World \<Rightarrow> string \<Rightarrow> Status + int" where
  "getFirstPage w file = (case files w file of Some _ \<Rightarrow> Inr 0 | None \<Rightarrow> Inl UNIXERR)"

definition framesFull :: "World \<Rightarrow> bool" where
  "framesFull w = (numBufs w \<le> length (remdups (pinned w)))"

definition allocPage :: "World \<Rightarrow> string \<Rightarrow> Status + (int \<times> World)" where
  "allocPage w file =
     (case files w file of
        None \<Rightarrow> Inl UNIXERR
      | Some ps \<Rightarrow>
          if framesFull w then Inl BUFFEREXCEEDED
          else Inr (int (length ps),
                    w\<lparr>files := (files w)(file \<mapsto> ps @ [Raw]),
                      disk := (disk w)(file := disk w file @ [Raw]),
                      pinned := (file, int (length ps)) # pinned w\<rparr>))"

definition readPage :: "World \<Rightarrow> string \<Rightarrow> int \<Rightarrow> Status + World" where
  "readPage w file p =
     (case files w file of
        None \<Rightarrow> Inl UNIXERR
      | Some ps \<Rightarrow>
          if p < 0 \<or> length ps \<le> nat p then Inl BADPAGENO
          else if (file, p) \<notin> set (pinned w) \<and> framesFull w then Inl BUFFEREXCEEDED
          else Inr (w\<lparr>pinned := (file, p) # pinned w\<rparr>))"

definition unPinPage :: "World \<Rightarrow> string \<Rightarrow> int \<Rightarrow> bool \<Rightarrow> Status + World" where
  "unPinPage w file p dirty =
     (if (file, p) \<in> set (pinned w) then
        Inr (w\<lparr>marked := (if dirty then List.insert (file, p) (marked w) else marked w),
               pinned := remove1 (file, p) (pinned w)\<rparr>)
      else Inl PAGENOTPINNED)"

text \<open>
  Modelled from the spec: the replacement of frames is the buffer manager's, whose code is
  not among the sources, and the spec leaves the policy open. No call of the heap layer
  replaces a frame here; \<open>reuseFrames\<close> is the step, between calls, in which the buffer
  manager takes back the frames of a file that are not pinned: a frame marked for
  writeback is written to the disk, any other frame is dropped, and the page is read from
  the disk again when it is next pinned. A pinned frame stays as it is.

  \<open>settle\<close> gives the pages of the file from page \<open>i\<close> on after that step:
  \<open>frames\<close> are the pages as the pool shows them, \<open>stored\<close> the pages on the disk.
  With \<open>onDisk\<close> the result is what the disk holds afterwards, without it what the
  handles read afterwards.
\<close>

fun settle ::
  "World \<Rightarrow> string \<Rightarrow> bool \<Rightarrow> nat \<Rightarrow> FilePage list \<Rightarrow> FilePage list \<Rightarrow> FilePage list" where
  "settle w file onDisk i [] stored = []"
| "settle w file onDisk i (frame # frames) stored =
     (let old = (case stored of [] \<Rightarrow> Raw | pg # _ \<Rightarrow> pg) in
      (if (file, int i) \<in> set (pinned w) then (if onDisk then old else frame)
       else if (file, int i) \<in> set (marked w) then frame
       else old)
      # settle w file onDisk (Suc i) frames (tl stored))"

definition reuseFrames :: "World \<Rightarrow> string \<Rightarrow> World" where
  "reuseFrames w file =
     (case files w file of
        None \<Rightarrow> w
      | Some frames \<Rightarrow>
          w\<lparr>files := (files w)(file \<mapsto> settle w file False 0 frames (disk w file)),
            disk := (disk w)(file := settle w file True 0 frames (disk w file)),
            marked := filter (\<lambda>x. if fst x = file then x \<in> set (pinned w) else True)
                        (marked w)\<rparr>)"

text \<open>Reading and writing a page through a frame pointer.\<close>

definition pageAt :: "World \<Rightarrow> string \<Rightarrow> int \<Rightarrow> FilePage option" where
  "pageAt w file p =
     (case files w file of
        None \<Rightarrow> None
      | Some ps \<Rightarrow> if 0 \<le> p \<and> nat p < length ps then Some (ps ! nat p) else None)"

definition hdrAt :: "World \<Rightarrow> string \<Rightarrow> int \<Rightarrow> FileHdrPage option" where
  "hdrAt w file p = (case pageAt w file p of Some (Hdr h) \<Rightarrow> Some h | _ \<Rightarrow> None)"

definition dataAt :: "World \<Rightarrow> string \<Rightarrow> int \<Rightarrow> DataPage option" where
  "dataAt w file p = (case pageAt w file p of Some (Data pg) \<Rightarrow> Some pg | _ \<Rightarrow> None)"

definition putPage :: "World \<Rightarrow> string \<Rightarrow> int \<Rightarrow> FilePage \<Rightarrow> World" where
  "putPage w file p pg =
     (case files w file of
        None \<Rightarrow> w
      | Some ps \<Rightarrow>
          if 0 \<le> p \<and> nat p < length ps
          then w\<lparr>files := (files w)(file \<mapsto> ps[nat p := pg])\<rparr>
          else w)"

subsection \<open>Creating and destroying a heap file\<close>

text \<open>
  \<open>MAXNAMESIZE\<close> is declared in a header that is not among the sources and the spec
  gives it no value: it is an argument (a positive number). The header page is written
  as the source writes it: the name first, the four counters after the data page has been
  allocated; the counters of a page just allocated read as 0. On the \<open>FILEEXISTS\<close> path
  the source leaves the file open; open counts are not modelled.
\<close>

definition createHeapFile :: "nat \<Rightarrow> string \<Rightarrow> World \<Rightarrow> Status \<times> World" where
  "createHeapFile MAXNAMESIZE fileName' w =
     (if length fileName' > MAXNAMESIZE - 1 then (BADFILE, w)
      else
        (case openFile w fileName' of
           Inr _ \<Rightarrow> (FILEEXISTS, w)
         | Inl _ \<Rightarrow>
            (case createFile w fileName' of
               Inl status \<Rightarrow> (status, w)
             | Inr w1 \<Rightarrow>
            (case openFile w1 fileName' of
               Inl status \<Rightarrow> (status, w1)
             | Inr file \<Rightarrow>
            (case allocPage w1 file of
               Inl status \<Rightarrow> (status, w1)
             | Inr (hdrPageNo, w2) \<Rightarrow>
            let w3 = putPage w2 file hdrPageNo
                       (Hdr \<lparr>fileName = fileName', firstPage = 0, lastPage = 0,
                             pageCnt = 0, recCnt = 0\<rparr>)
            in
            (case allocPage w3 file of
               Inl status \<Rightarrow> (status, w3)
             | Inr (newPageNo, w4) \<Rightarrow>
            let w5 = putPage w4 file newPageNo (Data (Page_init newPageNo));
                w6 = putPage w5 file hdrPageNo
                       (Hdr \<lparr>fileName = fileName', firstPage = newPageNo,
                             lastPage = newPageNo, pageCnt = 1, recCnt = 0\<rparr>)
            in
            (case unPinPage w6 file newPageNo True of
               Inl status \<Rightarrow> (status, w6)
             | Inr w7 \<Rightarrow>
            (case unPinPage w7 file hdrPageNo True of
               Inl status \<Rightarrow> (status, w7)
             | Inr w8 \<Rightarrow> (OK, w8)))))))))"

definition destroyFile :: "World \<Rightarrow> string \<Rightarrow> Status \<times> World" where
  "destroyFile w name =
     (case files w name of
        None \<Rightarrow> (UNIXERR, w)
      | Some _ \<Rightarrow> (OK, w\<lparr>files := (files w)(name := None), disk := (disk w)(name := [])\<rparr>))"

definition destroyHeapFile :: "string \<Rightarrow> World \<Rightarrow> Status \<times> World" where
  "destroyHeapFile fileName' w = destroyFile w fileName'"

subsection \<open>The class HeapFile\<close>

text \<open>
  \<open>headerPage\<close> points to the frame of page \<open>headerPageNo\<close>, pinned for the life of
  the handle, so the header is read and written in \<open>files\<close> at that number.
  \<open>curPage\<close> is the page whose frame the pointer refers to, \<open>None\<close> for the null
  pointer. The constructor takes the object as it is before construction (\<open>this\<close>) and
  the caller's status variable, which the source writes on failure only.
\<close>

record HeapFile =
  filePtr :: string
  headerPageNo :: int
  hdrDirtyFlag :: bool
  curPage :: "int option"
  curPageNo :: int
  curDirtyFlag :: bool
  curRec :: RID

definition deref :: "World \<Rightarrow> string \<Rightarrow> int option \<Rightarrow> DataPage option" where
  "deref w file page = (case page of None \<Rightarrow> None | Some p \<Rightarrow> dataAt w file p)"

definition HeapFile_ctor ::
  "string \<Rightarrow> Status \<Rightarrow> 'a HeapFile_scheme \<Rightarrow> World \<Rightarrow> (Status \<times> 'a HeapFile_scheme \<times> World) outcome" where
  "HeapFile_ctor fileName' returnStatus this w =
     (case openFile w fileName' of
        Inl status \<Rightarrow> Ret (status, this, w)
      | Inr file \<Rightarrow>
          let this1 = this\<lparr>filePtr := file\<rparr> in
          (case getFirstPage w file of
             Inl status \<Rightarrow> Ret (status, this1, w)
           | Inr hdrPageNo \<Rightarrow>
          (case readPage w file hdrPageNo of
             Inl status \<Rightarrow> Ret (status, this1, w)
           | Inr w1 \<Rightarrow>
          let this2 = this1\<lparr>headerPageNo := hdrPageNo, hdrDirtyFlag := False\<rparr> in
          (case hdrAt w1 file hdrPageNo of
             None \<Rightarrow> Undefined
           | Some hdr \<Rightarrow>
          (case readPage w1 file (firstPage hdr) of
             Inl status \<Rightarrow> Ret (status, this2, w1)
           | Inr w2 \<Rightarrow>
               Ret (returnStatus,
                    this2\<lparr>curPage := Some (firstPage hdr), curPageNo := firstPage hdr,
                          curDirtyFlag := False, curRec := NULLRID\<rparr>,
                    w2))))))"

text \<open>
  The destructor logs a failed unpin and goes on. The call of \<open>flushFile\<close> is commented
  out in the source, and the spec gives \<open>closeFile\<close> no effect on the pages or on the
  pool: closing the file changes nothing here.
\<close>

definition unPinLogged :: "World \<Rightarrow> string \<Rightarrow> int \<Rightarrow> bool \<Rightarrow> World" where
  "unPinLogged w file p dirty =
     (case unPinPage w file p dirty of Inl _ \<Rightarrow> w | Inr w1 \<Rightarrow> w1)"

definition HeapFile_dtor :: "'a HeapFile_scheme \<Rightarrow> World \<Rightarrow> World" where
  "HeapFile_dtor this w =
     (let w1 = (case curPage this of
                  None \<Rightarrow> w
                | Some _ \<Rightarrow> unPinLogged w (filePtr this) (curPageNo this) (curDirtyFlag this))
      in unPinLogged w1 (filePtr this) (headerPageNo this) (hdrDirtyFlag this))"

definition getRecCnt :: "'a HeapFile_scheme \<Rightarrow> World \<Rightarrow> int outcome" where
  "getRecCnt this w =
     (case hdrAt w (filePtr this) (headerPageNo this) of
        None \<Rightarrow> Undefined
      | Some hdr \<Rightarrow> Ret (recCnt hdr))"

text \<open>
  \<open>HeapFile::getRecord\<close> reads the wanted page into the local \<open>page\<close>; the member
  \<open>curPage\<close> is not assigned.
\<close>

definition HeapFile_getRecord ::
  "RID \<Rightarrow> 'a HeapFile_scheme \<Rightarrow> World \<Rightarrow> ((Status + Record) \<times> 'a HeapFile_scheme \<times> World) outcome" where
  "HeapFile_getRecord rid this w =
     (case (if pageNo rid \<noteq> curPageNo this then
              (case unPinPage w (filePtr this) (curPageNo this) (curDirtyFlag this) of
                 Inl status \<Rightarrow> Inl (status, w)
               | Inr w1 \<Rightarrow>
              (case readPage w1 (filePtr this) (pageNo rid) of
                 Inl status \<Rightarrow> Inl (status, w1)
               | Inr w2 \<Rightarrow>
                   Inr (Some (pageNo rid),
                        this\<lparr>curPageNo := pageNo rid, curDirtyFlag := False, curRec := NULLRID\<rparr>,
                        w2)))
            else Inr (curPage this, this, w)) of
        Inl (status, w') \<Rightarrow> Ret (Inl status, this, w')
      | Inr (page, this1, w1) \<Rightarrow>
          (case deref w1 (filePtr this) page of
             None \<Rightarrow> Undefined
           | Some pg \<Rightarrow>
               (case Page_getRecord pg rid of
                  Inl status \<Rightarrow> Ret (Inl status, this1, w1)
                | Inr rec \<Rightarrow> Ret (Inr rec, this1\<lparr>curRec := rid\<rparr>, w1))))"

subsection \<open>The class HeapFileScan\<close>

text \<open>
  The enumerations are declared in a header that is not among the sources; the last
  constructor of each stands for a value that is none of the enumerators, which a C++
  enumeration object can hold and \<open>startScan\<close> tests for. \<open>sizeof(int)\<close> and
  \<open>sizeof(float)\<close> are 4.
\<close>

datatype Datatype = STRING | INTEGER | FLOAT | OtherDatatype int

datatype Operator = LT | LTE | EQ | GTE | GT | NE | OtherOperator int

record HeapFileScan = HeapFile +
  offset :: int
  length' :: int
  type :: Datatype
  filter' :: "byte list option"
  op :: Operator
  markedPageNo :: int
  markedRec :: RID

definition sizeof_int :: int where
  "sizeof_int = 4"

definition sizeof_float :: int where
  "sizeof_float = 4"

definition HeapFileScan_ctor ::
  "string \<Rightarrow> Status \<Rightarrow> HeapFileScan \<Rightarrow> World \<Rightarrow> (Status \<times> HeapFileScan \<times> World) outcome" where
  "HeapFileScan_ctor name status this w =
     (case HeapFile_ctor name status this w of
        Ret (status1, this1, w1) \<Rightarrow> Ret (status1, this1\<lparr>filter' := None\<rparr>, w1)
      | Undefined \<Rightarrow> Undefined
      | OutOfFuel \<Rightarrow> OutOfFuel)"

definition startScan ::
  "int \<Rightarrow> int \<Rightarrow> Datatype \<Rightarrow> byte list option \<Rightarrow> Operator \<Rightarrow> HeapFileScan \<Rightarrow> Status \<times> HeapFileScan" where
  "startScan offset0 length0 type0 filter0 op0 this =
     (case filter0 of
        None \<Rightarrow> (OK, this\<lparr>filter' := None\<rparr>)
      | Some _ \<Rightarrow>
          if (offset0 < 0 \<or> length0 < 1) \<or>
             (type0 \<noteq> STRING \<and> type0 \<noteq> INTEGER \<and> type0 \<noteq> FLOAT) \<or>
             ((type0 = INTEGER \<and> length0 \<noteq> sizeof_int) \<or>
              (type0 = FLOAT \<and> length0 \<noteq> sizeof_float)) \<or>
             (op0 \<noteq> LT \<and> op0 \<noteq> LTE \<and> op0 \<noteq> EQ \<and> op0 \<noteq> GTE \<and> op0 \<noteq> GT \<and> op0 \<noteq> NE)
          then (BADSCANPARM, this)
          else (OK, this\<lparr>offset := offset0, length' := length0, type := type0,
                         filter' := filter0, op := op0\<rparr>))"

definition endScan :: "HeapFileScan \<Rightarrow> World \<Rightarrow> Status \<times> HeapFileScan \<times> World" where
  "endScan this w =
     (case curPage this of
        Some _ \<Rightarrow>
          (case unPinPage w (filePtr this) (curPageNo this) (curDirtyFlag this) of
             Inl status \<Rightarrow>
               (status, this\<lparr>curPage := None, curPageNo := 0, curDirtyFlag := False\<rparr>, w)
           | Inr w1 \<Rightarrow>
               (OK, this\<lparr>curPage := None, curPageNo := 0, curDirtyFlag := False\<rparr>, w1))
      | None \<Rightarrow> (OK, this, w))"

definition HeapFileScan_dtor :: "HeapFileScan \<Rightarrow> World \<Rightarrow> World" where
  "HeapFileScan_dtor this w = (case endScan this w of (_, this1, w1) \<Rightarrow> HeapFile_dtor this1 w1)"

definition markScan :: "HeapFileScan \<Rightarrow> Status \<times> HeapFileScan" where
  "markScan this = (OK, this\<lparr>markedPageNo := curPageNo this, markedRec := curRec this\<rparr>)"

definition resetScan :: "HeapFileScan \<Rightarrow> World \<Rightarrow> Status \<times> HeapFileScan \<times> World" where
  "resetScan this w =
     (if markedPageNo this \<noteq> curPageNo this then
        (case (case curPage this of
                 Some _ \<Rightarrow> unPinPage w (filePtr this) (curPageNo this) (curDirtyFlag this)
               | None \<Rightarrow> Inr w) of
           Inl status \<Rightarrow> (status, this, w)
         | Inr w1 \<Rightarrow>
             let this1 = this\<lparr>curPageNo := markedPageNo this, curRec := markedRec this\<rparr> in
             (case readPage w1 (filePtr this1) (curPageNo this1) of
                Inl status \<Rightarrow> (status, this1, w1)
              | Inr w2 \<Rightarrow>
                  (OK, this1\<lparr>curPage := Some (curPageNo this1), curDirtyFlag := False\<rparr>, w2)))
      else (OK, this\<lparr>curRec := markedRec this\<rparr>, w))"

subsection \<open>The predicate of a scan\<close>

text \<open>
  \<open>diff\<close> is a \<^verbatim>\<open>float\<close> that the source only compares with \<^verbatim>\<open>0.0\<close>; the model
  keeps how it compares: below, equal, above, or not a number. The conversion of an
  \<^verbatim>\<open>int\<close> to \<^verbatim>\<open>float\<close> keeps the sign and keeps zero apart from the rest.
\<close>

datatype fsign = Below | Zero | Above | Unordered

definition holds :: "Operator \<Rightarrow> fsign \<Rightarrow> bool" where
  "holds op0 diff =
     (case op0 of
        LT \<Rightarrow> diff = Below
      | LTE \<Rightarrow> diff = Below \<or> diff = Zero
      | EQ \<Rightarrow> diff = Zero
      | GTE \<Rightarrow> diff = Zero \<or> diff = Above
      | GT \<Rightarrow> diff = Above
      | NE \<Rightarrow> diff \<noteq> Zero
      | OtherOperator _ \<Rightarrow> False)"

definition signOf :: "int \<Rightarrow> fsign" where
  "signOf d = (if d < 0 then Below else if d = 0 then Zero else Above)"

text \<open>
  \<^verbatim>\<open>memcpy\<close> into an \<^verbatim>\<open>int\<close>: the bytes in little-endian order, as a 32-bit word.
  \<^verbatim>\<open>iattr - ifltr\<close> is the subtraction of 32-bit two's complement integers; it wraps
  around (the C++ standard leaves the overflow undefined).
\<close>

fun leNat :: "byte list \<Rightarrow> nat" where
  "leNat [] = 0"
| "leNat (b # bs) = unat b + 256 * leNat bs"

definition memcpyInt :: "byte list \<Rightarrow> 32 word" where
  "memcpyInt bs = word_of_nat (leNat bs)"

definition intDiff :: "32 word \<Rightarrow> 32 word \<Rightarrow> fsign" where
  "intDiff iattr ifltr = signOf (sint (iattr - ifltr))"

text \<open>
  A \<^verbatim>\<open>float\<close> is an IEEE 754 single: not a number, an infinity with its sign, or a
  finite value, kept here multiplied by \<open>2 ^ 150\<close> so that it is an integer. The
  difference of two finite values has the sign of their exact difference.
\<close>

datatype fval = FNaN | FInf bool | FFin int

definition decodeFloat :: "32 word \<Rightarrow> fval" where
  "decodeFloat w =
     (let n = unat w; s = (n div 2 ^ 31 = 1); e = (n div 2 ^ 23) mod 256; m = n mod 2 ^ 23
      in if e = 255 then (if m = 0 then FInf s else FNaN)
         else FFin ((if s then -1 else 1) *
                    int (if e = 0 then m * 2 else (2 ^ 23 + m) * 2 ^ e)))"

definition floatDiff :: "32 word \<Rightarrow> 32 word \<Rightarrow> fsign" where
  "floatDiff fattr ffltr =
     (case (decodeFloat fattr, decodeFloat ffltr) of
        (FNaN, _) \<Rightarrow> Unordered
      | (_, FNaN) \<Rightarrow> Unordered
      | (FInf s, FInf t) \<Rightarrow> if s = t then Unordered else if s then Below else Above
      | (FInf s, FFin _) \<Rightarrow> if s then Below else Above
      | (FFin _, FInf t) \<Rightarrow> if t then Above else Below
      | (FFin x, FFin y) \<Rightarrow> signOf (x - y))"

text \<open>
  \<^verbatim>\<open>strncmp\<close>: bytes compared as unsigned, up to \<open>n\<close> of them, stopping after a null
  byte. A byte past the end of a buffer reads as 0.
\<close>

fun strncmp :: "byte list \<Rightarrow> byte list \<Rightarrow> nat \<Rightarrow> int" where
  "strncmp s1 s2 0 = 0"
| "strncmp s1 s2 (Suc n) =
     (let c1 = (case s1 of [] \<Rightarrow> 0 | c # _ \<Rightarrow> c);
          c2 = (case s2 of [] \<Rightarrow> 0 | c # _ \<Rightarrow> c)
      in if c1 \<noteq> c2 then int (unat c1) - int (unat c2)
         else if c1 = 0 then 0
         else strncmp (tl s1) (tl s2) n)"

text \<open>
  Whether \<^verbatim>\<open>strncmp\<close> stays inside its first buffer: it reads no byte after the last
  one of \<open>s1\<close>.
\<close>

fun inBuffer :: "byte list \<Rightarrow> byte list \<Rightarrow> nat \<Rightarrow> bool" where
  "inBuffer s1 s2 0 = True"
| "inBuffer [] s2 (Suc n) = False"
| "inBuffer (c1 # s1) s2 (Suc n) =
     (let c2 = (case s2 of [] \<Rightarrow> 0 | c # _ \<Rightarrow> c)
      in if c1 \<noteq> c2 then True
         else if c1 = 0 then True
         else inBuffer s1 (tl s2) n)"

text \<open>
  \<open>offset\<close>, \<open>length\<close> and \<^verbatim>\<open>rec.length\<close> are \<^verbatim>\<open>int\<close>s: the test of line 385
  computes \<open>offset + length - 1\<close> in 32 bits, with wrap-around as for \<open>iattr - ifltr\<close>.
  When the sum wraps around, the test lets through an attribute that does not lie
  inside the record; a comparison that then reads outside the record's bytes is the
  outcome \<open>Undefined\<close>. \<^verbatim>\<open>memcpy\<close> reads all \<open>length\<close> bytes of the attribute,
  \<^verbatim>\<open>strncmp\<close> the bytes up to where it stops.
\<close>

definition matchRec :: "HeapFileScan \<Rightarrow> Record \<Rightarrow> bool outcome" where
  "matchRec this rec =
     (case filter' this of
        None \<Rightarrow> Ret True
      | Some flt \<Rightarrow>
          if sint (word_of_int (offset this) + word_of_int (length' this) - 1 :: 32 word)
               \<ge> int (length rec)
          then Ret False
          else
            let attr = take (nat (length' this)) (drop (nat (offset this)) rec);
                fltr = take (nat (length' this)) flt;
                inside = (0 \<le> offset this \<and> offset this + length' this \<le> int (length rec))
            in
            (case (case type this of
                     INTEGER \<Rightarrow>
                       if inside then Some (intDiff (memcpyInt attr) (memcpyInt fltr)) else None
                   | FLOAT \<Rightarrow>
                       if inside then Some (floatDiff (memcpyInt attr) (memcpyInt fltr)) else None
                   | STRING \<Rightarrow>
                       if 0 \<le> offset this \<and>
                          inBuffer (drop (nat (offset this)) rec) flt (nat (length' this))
                       then Some (signOf (strncmp (drop (nat (offset this)) rec) flt
                                            (nat (length' this))))
                       else None
                   | OtherDatatype _ \<Rightarrow> Some Zero) of
               None \<Rightarrow> Undefined
             | Some diff \<Rightarrow> Ret (holds (op this) diff)))"

subsection \<open>Scanning\<close>

text \<open>
  The two nested loops of \<open>scanNext\<close> are one recursion. \<open>scanPass\<close> is one pass
  through the body of the inner loop, followed, when the page has no further record, by
  the rest of the body of the outer loop: it returns from \<open>scanNext\<close>, or goes on to
  the next pass with new values of \<open>nextRid\<close>, the handle and the buffer pool.
  \<open>tmpRid\<close> is set once, before the loops; \<open>nextRid\<close> is a local that the source
  does not initialise. The source never assigns \<open>outRid\<close>, so the caller's value comes
  back as it went in.
\<close>

datatype pass = Return Status HeapFileScan World | Again RID HeapFileScan World | Wild

definition scanPass :: "RID \<Rightarrow> RID \<Rightarrow> HeapFileScan \<Rightarrow> World \<Rightarrow> pass" where
  "scanPass tmpRid nextRid this w =
     (case deref w (filePtr this) (curPage this) of
        None \<Rightarrow> Wild
      | Some pg \<Rightarrow>
          (case (if pageNo tmpRid = pageNo NULLRID \<and> slotNo (curRec this) = slotNo NULLRID
                 then Page_firstRecord pg nextRid
                 else Page_nextRecord pg tmpRid nextRid) of
             (status, nextRid1) \<Rightarrow>
               if status = ENDOFPAGE then
                 (if nextPage pg = -1 then Return FILEEOF this w
                  else
                    (case unPinPage w (filePtr this) (curPageNo this) (curDirtyFlag this) of
                       Inl status1 \<Rightarrow> Return status1 this w
                     | Inr w1 \<Rightarrow>
                    (case readPage w1 (filePtr this) (nextPage pg) of
                       Inl status1 \<Rightarrow> Return status1 this w1
                     | Inr w2 \<Rightarrow>
                         Again nextRid1
                           (this\<lparr>curPageNo := nextPage pg, curPage := Some (nextPage pg),
                                 curDirtyFlag := False, curRec := NULLRID\<rparr>)
                           w2)))
               else
                 (case Page_getRecord pg nextRid1 of
                    Inl status1 \<Rightarrow> Return status1 this w
                  | Inr rec \<Rightarrow>
                      (case matchRec this rec of
                         Ret matches \<Rightarrow>
                           if matches then Return OK (this\<lparr>curRec := nextRid1\<rparr>) w
                           else Again nextRid1 this w
                       | Undefined \<Rightarrow> Wild
                       | OutOfFuel \<Rightarrow> Wild))))"

fun scanLoop ::
  "nat \<Rightarrow> RID \<Rightarrow> RID \<Rightarrow> HeapFileScan \<Rightarrow> World \<Rightarrow> (Status \<times> HeapFileScan \<times> World) outcome" where
  "scanLoop 0 tmpRid nextRid this w = OutOfFuel"
| "scanLoop (Suc n) tmpRid nextRid this w =
     (case scanPass tmpRid nextRid this w of
        Return status this1 w1 \<Rightarrow> Ret (status, this1, w1)
      | Again nextRid1 this1 w1 \<Rightarrow> scanLoop n tmpRid nextRid1 this1 w1
      | Wild \<Rightarrow> Undefined)"

definition scanNext ::
  "nat \<Rightarrow> RID \<Rightarrow> RID \<Rightarrow> HeapFileScan \<Rightarrow> World \<Rightarrow> (Status \<times> RID \<times> HeapFileScan \<times> World) outcome" where
  "scanNext fuel outRid nextRid this w =
     (case scanLoop fuel (curRec this) nextRid this w of
        Ret (status, this1, w1) \<Rightarrow> Ret (status, outRid, this1, w1)
      | Undefined \<Rightarrow> Undefined
      | OutOfFuel \<Rightarrow> OutOfFuel)"

definition HeapFileScan_getRecord :: "HeapFileScan \<Rightarrow> World \<Rightarrow> (Status + Record) outcome" where
  "HeapFileScan_getRecord this w =
     (case deref w (filePtr this) (curPage this) of
        None \<Rightarrow> Undefined
      | Some pg \<Rightarrow> Ret (Page_getRecord pg (curRec this)))"

definition deleteRecord :: "HeapFileScan \<Rightarrow> World \<Rightarrow> (Status \<times> HeapFileScan \<times> World) outcome" where
  "deleteRecord this w =
     (case curPage this of
        None \<Rightarrow> Undefined
      | Some p \<Rightarrow>
     (case dataAt w (filePtr this) p of
        None \<Rightarrow> Undefined
      | Some pg \<Rightarrow>
     (case Page_deleteRecord pg (curRec this) of
        (status, pg1) \<Rightarrow>
     let w1 = putPage w (filePtr this) p (Data pg1) in
     (case hdrAt w1 (filePtr this) (headerPageNo this) of
        None \<Rightarrow> Undefined
      | Some hdr \<Rightarrow>
          Ret (status,
               this\<lparr>curDirtyFlag := True, hdrDirtyFlag := True\<rparr>,
               putPage w1 (filePtr this) (headerPageNo this)
                 (Hdr (hdr\<lparr>recCnt := recCnt hdr - 1\<rparr>)))))))"

definition markDirty :: "HeapFileScan \<Rightarrow> Status \<times> HeapFileScan" where
  "markDirty this = (OK, this\<lparr>curDirtyFlag := True\<rparr>)"

subsection \<open>The class InsertFileScan\<close>

text \<open>
  \<open>insertRecord\<close> is given the page layer's insert as an argument, so that a retried
  insert that fails can be stated; \<open>InsertFileScan_insertRecord\<close> is the instance with
  the page layer above. \<open>rid\<close> is a local that the source does not initialise.
\<close>

definition InsertFileScan_ctor ::
  "string \<Rightarrow> Status \<Rightarrow> HeapFile \<Rightarrow> World \<Rightarrow> (Status \<times> HeapFile \<times> World) outcome" where
  "InsertFileScan_ctor name status this w = HeapFile_ctor name status this w"

definition InsertFileScan_dtor :: "'a HeapFile_scheme \<Rightarrow> World \<Rightarrow> World" where
  "InsertFileScan_dtor this w =
     (case curPage this of
        Some _ \<Rightarrow>
          HeapFile_dtor (this\<lparr>curPage := None, curPageNo := 0\<rparr>)
            (unPinLogged w (filePtr this) (curPageNo this) True)
      | None \<Rightarrow> HeapFile_dtor this w)"

definition countRecord ::
  "RID \<Rightarrow> 'a HeapFile_scheme \<Rightarrow> World \<Rightarrow> (Status \<times> RID \<times> 'a HeapFile_scheme \<times> World) outcome" where
  "countRecord rid this w =
     (case hdrAt w (filePtr this) (headerPageNo this) of
        None \<Rightarrow> Undefined
      | Some hdr \<Rightarrow>
          Ret (OK, rid, this\<lparr>curRec := rid, curDirtyFlag := True\<rparr>,
               putPage w (filePtr this) (headerPageNo this)
                 (Hdr (hdr\<lparr>recCnt := recCnt hdr + 1\<rparr>))))"

text \<open>Lines 470 to 484: make the last page of the file the current page.\<close>

definition toLastPage ::
  "FileHdrPage \<Rightarrow> 'a HeapFile_scheme \<Rightarrow> World \<Rightarrow> (Status \<times> World) + ('a HeapFile_scheme \<times> World)" where
  "toLastPage hdr this w =
     (if curPageNo this \<noteq> lastPage hdr then
        (case unPinPage w (filePtr this) (curPageNo this) (curDirtyFlag this) of
           Inl status \<Rightarrow> Inl (status, w)
         | Inr w1 \<Rightarrow>
        (case readPage w1 (filePtr this) (lastPage hdr) of
           Inl status \<Rightarrow> Inl (status, w1)
         | Inr w2 \<Rightarrow>
             Inr (this\<lparr>curPage := Some (lastPage hdr), curPageNo := lastPage hdr,
                       curDirtyFlag := False\<rparr>, w2)))
      else Inr (this, w))"

definition insertRecordWith ::
  "(DataPage \<Rightarrow> Record \<Rightarrow> RID \<Rightarrow> Status \<times> RID \<times> DataPage) \<Rightarrow>
   Record \<Rightarrow> RID \<Rightarrow> RID \<Rightarrow> 'a HeapFile_scheme \<Rightarrow> World \<Rightarrow>
   (Status \<times> RID \<times> 'a HeapFile_scheme \<times> World) outcome" where
  "insertRecordWith pageInsert rec outRid rid this w =
     (if int (length rec) > PAGESIZE - DPFIXED then Ret (INVALIDRECLEN, NULLRID, this, w)
      else
     (case hdrAt w (filePtr this) (headerPageNo this) of
        None \<Rightarrow> Undefined
      | Some hdr \<Rightarrow>
     (case toLastPage hdr this w of
        Inl (status, w') \<Rightarrow> Ret (status, NULLRID, this, w')
      | Inr (this1, w1) \<Rightarrow>
     (case curPage this1 of
        None \<Rightarrow> Undefined
      | Some p \<Rightarrow>
     (case dataAt w1 (filePtr this1) p of
        None \<Rightarrow> Undefined
      | Some pg \<Rightarrow>
     (case pageInsert pg rec rid of
        (status, rid1, pg1) \<Rightarrow>
     let w2 = putPage w1 (filePtr this1) p (Data pg1) in
     if status = NOSPACE then
       (case unPinPage w2 (filePtr this1) (curPageNo this1) (curDirtyFlag this1) of
          Inl status1 \<Rightarrow> Ret (status1, NULLRID, this1, w2)
        | Inr w3 \<Rightarrow>
       (case allocPage w3 (filePtr this1) of
          Inl status1 \<Rightarrow> Ret (status1, NULLRID, this1, w3)
        | Inr (newPageNo, w4) \<Rightarrow>
       let w5 = putPage w4 (filePtr this1) newPageNo (Data (Page_init newPageNo)) in
       (case hdrAt w5 (filePtr this1) (headerPageNo this1) of
          None \<Rightarrow> Undefined
        | Some hdr1 \<Rightarrow>
       let w6 = putPage w5 (filePtr this1) (headerPageNo this1)
                  (Hdr (hdr1\<lparr>lastPage := newPageNo, pageCnt := pageCnt hdr1 + 1\<rparr>));
           this2 = this1\<lparr>curPage := Some newPageNo, curPageNo := newPageNo,
                         curDirtyFlag := False, curRec := NULLRID\<rparr>
       in
       (case pageInsert (Page_init newPageNo) rec rid1 of
          (status2, rid2, pg2) \<Rightarrow>
            countRecord rid2 this2 (putPage w6 (filePtr this1) newPageNo (Data pg2))))))
     else if status \<noteq> OK then Ret (status, NULLRID, this1, w2)
     else countRecord rid1 this1 w2))))))"

definition InsertFileScan_insertRecord ::
  "Record \<Rightarrow> RID \<Rightarrow> RID \<Rightarrow> 'a HeapFile_scheme \<Rightarrow> World \<Rightarrow>
   (Status \<times> RID \<times> 'a HeapFile_scheme \<times> World) outcome" where
  "InsertFileScan_insertRecord = insertRecordWith Page_insertRecord"

subsection \<open>Counting pages and records; sequences of inserts\<close>

text \<open>
  The data pages of a file, the number of live records on them, and the pages reached from
  \<open>header.firstPage\<close> along the \<open>nextPage\<close> links (at most as many steps as the file
  has pages).
\<close>

fun dataPages :: "FilePage list \<Rightarrow> DataPage list" where
  "dataPages [] = []"
| "dataPages (Data pg # ps) = pg # dataPages ps"
| "dataPages (_ # ps) = dataPages ps"

definition liveRecords :: "World \<Rightarrow> string \<Rightarrow> int" where
  "liveRecords w file =
     (case files w file of
        None \<Rightarrow> 0
      | Some ps \<Rightarrow> int (sum_list (map liveCount (dataPages ps))))"

definition dataPageCount :: "World \<Rightarrow> string \<Rightarrow> int" where
  "dataPageCount w file =
     (case files w file of None \<Rightarrow> 0 | Some ps \<Rightarrow> int (length (dataPages ps)))"

fun chain :: "nat \<Rightarrow> World \<Rightarrow> string \<Rightarrow> int \<Rightarrow> int list" where
  "chain 0 w file p = []"
| "chain (Suc n) w file p =
     (case dataAt w file p of
        None \<Rightarrow> []
      | Some pg \<Rightarrow> p # (if nextPage pg = -1 then [] else chain n w file (nextPage pg)))"

definition reachablePages :: "World \<Rightarrow> string \<Rightarrow> int list" where
  "reachablePages w file =
     (case files w file of
        None \<Rightarrow> []
      | Some ps \<Rightarrow>
          (case hdrAt w file 0 of
             None \<Rightarrow> []
           | Some hdr \<Rightarrow> chain (length ps) w file (firstPage hdr)))"

text \<open>Inserting a list of records, each insert returning \<open>OK\<close>: the RIDs handed out.\<close>

fun insertAll ::
  "Record list \<Rightarrow> RID \<Rightarrow> 'a HeapFile_scheme \<Rightarrow> World \<Rightarrow> (RID list \<times> 'a HeapFile_scheme \<times> World) option" where
  "insertAll [] rid this w = Some ([], this, w)"
| "insertAll (rec # recs) rid this w =
     (case InsertFileScan_insertRecord rec NULLRID rid this w of
        Ret (status, outRid, this1, w1) \<Rightarrow>
          if status = OK then
            (case insertAll recs rid this1 w1 of
               Some (rids, this2, w2) \<Rightarrow> Some (outRid # rids, this2, w2)
             | None \<Rightarrow> None)
          else None
      | Undefined \<Rightarrow> None
      | OutOfFuel \<Rightarrow> None)"

subsection \<open>States used as concrete inputs\<close>

text \<open>
  A database with no file and \<open>n\<close> buffer frames; a handle object before its
  construction; a scan whose predicate compares a 4-byte integer at offset 0.
\<close>

definition emptyWorld :: "nat \<Rightarrow> World" where
  "emptyWorld n = \<lparr>files = Map.empty, disk = (\<lambda>_. []), marked = [], numBufs = n, pinned = []\<rparr>"

definition blankFile :: HeapFile where
  "blankFile = \<lparr>filePtr = [], headerPageNo = 0, hdrDirtyFlag = False, curPage = None,
                curPageNo = 0, curDirtyFlag = False, curRec = \<lparr>pageNo = 0, slotNo = 0\<rparr>\<rparr>"

definition blankScan :: HeapFileScan where
  "blankScan = \<lparr>filePtr = [], headerPageNo = 0, hdrDirtyFlag = False, curPage = None,
                curPageNo = 0, curDirtyFlag = False, curRec = \<lparr>pageNo = 0, slotNo = 0\<rparr>,
                offset = 0, length' = 0, type = STRING, filter' = None, op = LT,
                markedPageNo = 0, markedRec = \<lparr>pageNo = 0, slotNo = 0\<rparr>\<rparr>"

text \<open>
  The file \<open>t\<close> as \<open>createHeapFile\<close> leaves it in a database with four frames
  (both pages in frames marked for writeback, nothing written yet), and the handle and the
  buffer pool after the constructor has opened it.
\<close>

definition freshHdr :: FileHdrPage where
  "freshHdr = \<lparr>fileName = ''t'', firstPage = 1, lastPage = 1, pageCnt = 1, recCnt = 0\<rparr>"

definition freshWorld :: World where
  "freshWorld =
     \<lparr>files = [''t'' \<mapsto> [Hdr freshHdr, Data (Page_init 1)]],
      disk = (\<lambda>_. [])(''t'' := [Raw, Raw]), marked = [(''t'', 0), (''t'', 1)],
      numBufs = 4, pinned = []\<rparr>"

definition openedFile :: HeapFile where
  "openedFile = \<lparr>filePtr = ''t'', headerPageNo = 0, hdrDirtyFlag = False, curPage = Some 1,
                 curPageNo = 1, curDirtyFlag = False, curRec = NULLRID\<rparr>"

definition openedScan :: HeapFileScan where
  "openedScan = \<lparr>filePtr = ''t'', headerPageNo = 0, hdrDirtyFlag = False, curPage = Some 1,
                 curPageNo = 1, curDirtyFlag = False, curRec = NULLRID,
                 offset = 0, length' = 0, type = STRING, filter' = None, op = LT,
                 markedPageNo = 0, markedRec = \<lparr>pageNo = 0, slotNo = 0\<rparr>\<rparr>"

definition openedWorld :: World where
  "openedWorld = freshWorld\<lparr>pinned := [(''t'', 1), (''t'', 0)]\<rparr>"

text \<open>
  The same after \<open>insertRecord\<close> of the record \<open>01 02 03\<close>, and after the destructor of
  the inserting handle has released its pins.
\<close>

definition oneRecordPage :: DataPage where
  "oneRecordPage = (Page_init 1)\<lparr>slot := [Some [1, 2, 3]], freeSpace := 1001\<rparr>"

definition insertedFile :: HeapFile where
  "insertedFile = openedFile\<lparr>curRec := \<lparr>pageNo = 1, slotNo = 0\<rparr>, curDirtyFlag := True\<rparr>"

definition insertedWorld :: World where
  "insertedWorld =
     openedWorld\<lparr>files := [''t'' \<mapsto> [Hdr (freshHdr\<lparr>recCnt := 1\<rparr>), Data oneRecordPage]]\<rparr>"

definition storedWorld :: World where
  "storedWorld = insertedWorld\<lparr>pinned := []\<rparr>"

text \<open>
  Two records of 600 bytes do not fit on one page: the file after both have been inserted,
  the inserting handle, and the scan opened after the inserting handle is gone.
\<close>

definition bigRecord :: Record where
  "bigRecord = replicate 600 0"

definition bigPage :: "int \<Rightarrow> DataPage" where
  "bigPage p = (Page_init p)\<lparr>slot := [Some bigRecord], freeSpace := 404\<rparr>"

definition twoPageFile :: HeapFile where
  "twoPageFile = openedFile\<lparr>curPage := Some 2, curPageNo := 2,
                            curRec := \<lparr>pageNo = 2, slotNo = 0\<rparr>, curDirtyFlag := True\<rparr>"

definition twoPageWorld :: World where
  "twoPageWorld =
     \<lparr>files = [''t'' \<mapsto> [Hdr (freshHdr\<lparr>lastPage := 2, pageCnt := 2, recCnt := 2\<rparr>),
                         Data (bigPage 1), Data (bigPage 2)]],
      disk = (\<lambda>_. [])(''t'' := [Raw, Raw, Raw]), marked = [(''t'', 0), (''t'', 1)],
      numBufs = 4, pinned = [(''t'', 2), (''t'', 0)]\<rparr>"

definition twoPageScanWorld :: World where
  "twoPageScanWorld =
     twoPageWorld\<lparr>marked := [(''t'', 2), (''t'', 0), (''t'', 1)],
                  pinned := [(''t'', 1), (''t'', 0)]\<rparr>"

text \<open>
  The two-page file in a pool of two frames while two handles are open on it, each with
  the header and one data page pinned: every frame holds a pinned page. In
  \<open>linkedWorld\<close> the first data page has the second as its next page.
\<close>

definition crowdedWorld :: "int \<Rightarrow> World" where
  "crowdedWorld p = twoPageWorld\<lparr>numBufs := 2, pinned := [(''t'', p), (''t'', 0), (''t'', p), (''t'', 0)]\<rparr>"

definition linkedWorld :: World where
  "linkedWorld =
     \<lparr>files = [''t'' \<mapsto> [Hdr (freshHdr\<lparr>lastPage := 2, pageCnt := 2, recCnt := 2\<rparr>),
                         Data ((bigPage 1)\<lparr>nextPage := 2\<rparr>), Data (bigPage 2)]],
      disk = (\<lambda>_. [])(''t'' := [Raw, Raw, Raw]), marked = [(''t'', 0), (''t'', 1)],
      numBufs = 2, pinned = [(''t'', 1), (''t'', 0), (''t'', 1), (''t'', 0)]\<rparr>"

text \<open>
  The new file after the buffer manager has taken back its frames (both pages are
  written), the pool after a handle has opened it in that state and after that handle has
  inserted the record \<open>01 02 03\<close>, the pool after the handle is gone, and the file
  after the frames have been taken back once more.
\<close>

definition savedWorld :: World where
  "savedWorld =
     freshWorld\<lparr>disk := (\<lambda>_. [])(''t'' := [Hdr freshHdr, Data (Page_init 1)]), marked := []\<rparr>"

definition savedOpenedWorld :: World where
  "savedOpenedWorld = savedWorld\<lparr>pinned := [(''t'', 1), (''t'', 0)]\<rparr>"

definition savedInsertedWorld :: World where
  "savedInsertedWorld =
     savedOpenedWorld\<lparr>files := [''t'' \<mapsto> [Hdr (freshHdr\<lparr>recCnt := 1\<rparr>), Data oneRecordPage]]\<rparr>"

definition unsavedWorld :: World where
  "unsavedWorld = savedInsertedWorld\<lparr>marked := [(''t'', 1)], pinned := []\<rparr>"

definition lostWorld :: World where
  "lostWorld =
     \<lparr>files = [''t'' \<mapsto> [Hdr freshHdr, Data oneRecordPage]],
      disk = (\<lambda>_. [])(''t'' := [Hdr freshHdr, Data oneRecordPage]), marked = [],
      numBufs = 4, pinned = []\<rparr>"

definition lostOpenedWorld :: World where
  "lostOpenedWorld = lostWorld\<lparr>pinned := [(''t'', 1), (''t'', 0)]\<rparr>"

text \<open>
  The same with two records of 600 bytes: the pool after both have been inserted into the
  written file, after the inserting handle is gone, and the file after the frames have
  been taken back and a handle has opened it again.
\<close>

definition savedTwoPageWorld :: World where
  "savedTwoPageWorld =
     twoPageWorld\<lparr>disk := (\<lambda>_. [])(''t'' := [Hdr freshHdr, Data (Page_init 1), Raw]),
                  marked := [(''t'', 1)]\<rparr>"

definition unsavedTwoPageWorld :: World where
  "unsavedTwoPageWorld = savedTwoPageWorld\<lparr>marked := [(''t'', 2), (''t'', 1)], pinned := []\<rparr>"

definition lostTwoPageWorld :: World where
  "lostTwoPageWorld =
     \<lparr>files = [''t'' \<mapsto> [Hdr freshHdr, Data (bigPage 1), Data (bigPage 2)]],
      disk = (\<lambda>_. [])(''t'' := [Hdr freshHdr, Data (bigPage 1), Data (bigPage 2)]),
      marked = [], numBufs = 4, pinned = [(''t'', 1), (''t'', 0)]\<rparr>"

text \<open>
  A handle that appends to the file \<open>t\<close>: the current page is the last page, page
  \<open>P\<close> of \<open>P\<close> data pages, with \<open>fr\<close> bytes free, the header counts \<open>P\<close> pages and
  \<open>k\<close> records, and only the header and the last page are pinned. \<open>fill\<close> is what an
  insert of \<open>len\<close> bytes does to the number of data pages and the free space of the last.
\<close>

definition appending :: "nat \<Rightarrow> int \<Rightarrow> int \<Rightarrow> HeapFile \<Rightarrow> World \<Rightarrow> bool" where
  "appending P fr k this w =
     (0 < P \<and> filePtr this = ''t'' \<and> headerPageNo this = 0 \<and> curPage this = Some (int P) \<and>
      curPageNo this = int P \<and> numBufs w = 4 \<and> pinned w = [(''t'', int P), (''t'', 0)] \<and>
      (case files w ''t'' of
         None \<Rightarrow> False
       | Some ps \<Rightarrow>
           length ps = Suc P \<and>
           (case ps ! 0 of
              Hdr hdr \<Rightarrow> lastPage hdr = int P \<and> pageCnt hdr = int P \<and> recCnt hdr = k
            | _ \<Rightarrow> False) \<and>
           (case ps ! P of Data pg \<Rightarrow> freeSpace pg = fr | _ \<Rightarrow> False)))"

definition fill :: "int \<Rightarrow> nat \<times> int \<Rightarrow> nat \<times> int" where
  "fill len s = (case s of (P, fr) \<Rightarrow>
      if len \<le> fr then (P, fr - len) else (Suc P, PAGESIZE - DPFIXED - len))"

text \<open>A page-layer insert that never finds room.\<close>

definition neverRoom :: "DataPage \<Rightarrow> Record \<Rightarrow> RID \<Rightarrow> Status \<times> RID \<times> DataPage" where
  "neverRoom pg rec rid = (NOSPACE, rid, pg)"

definition intPredicate :: "Operator \<Rightarrow> byte list \<Rightarrow> HeapFileScan" where
  "intPredicate op0 flt = snd (startScan 0 4 INTEGER (Some flt) op0 blankScan)"

section \<open>Properties\<close>

subsection \<open>The pages under the buffer manager and the page layer\<close>

lemma dataPages_append: "dataPages (ps @ qs) = dataPages ps @ dataPages qs"
  by (induction ps rule: dataPages.induct) auto

lemma dataPages_update_hdr:
  "i < length ps \<Longrightarrow> ps ! i = Hdr h \<Longrightarrow> dataPages (ps[i := Hdr h']) = dataPages ps"
proof (induction ps arbitrary: i)
  case Nil
  then show ?case by simp
next
  case (Cons a ps)
  then show ?case by (cases i; cases a) auto
qed

lemma dataPages_update_data_sum:
  fixes f :: "DataPage \<Rightarrow> nat"
  shows "i < length ps \<Longrightarrow> ps ! i = Data d \<Longrightarrow>
     sum_list (map f (dataPages (ps[i := Data d']))) + f d = sum_list (map f (dataPages ps)) + f d'"
proof (induction ps arbitrary: i)
  case Nil
  then show ?case by simp
next
  case (Cons a ps)
  then show ?case by (cases i; cases a) auto
qed

lemma dataPages_update_data_length:
  "i < length ps \<Longrightarrow> ps ! i = Data d \<Longrightarrow>
     length (dataPages (ps[i := Data d'])) = length (dataPages ps)"
proof (induction ps arbitrary: i)
  case Nil
  then show ?case by simp
next
  case (Cons a ps)
  then show ?case by (cases i; cases a) auto
qed

lemma unPinPage_files: "unPinPage w f p d = Inr w' \<Longrightarrow> files w' = files w"
  by (auto simp: unPinPage_def split: if_splits)

lemma allocPage_files:
  "allocPage w f = Inr (n, w') \<Longrightarrow>
     \<exists>ps. files w f = Some ps \<and> n = int (length ps) \<and> files w' = (files w)(f \<mapsto> ps @ [Raw])"
  by (auto simp: allocPage_def split: if_splits option.splits)

lemma hdrAt_files: "files w' = files w \<Longrightarrow> hdrAt w' = hdrAt w"
  by (simp add: hdrAt_def pageAt_def fun_eq_iff)

lemma hdrAt_Some:
  "hdrAt w f p = Some h \<longleftrightarrow>
     (\<exists>ps. files w f = Some ps \<and> 0 \<le> p \<and> nat p < length ps \<and> ps ! nat p = Hdr h)"
  by (auto simp: hdrAt_def pageAt_def split: option.splits FilePage.splits)

lemma dataAt_Some:
  "dataAt w f p = Some d \<longleftrightarrow>
     (\<exists>ps. files w f = Some ps \<and> 0 \<le> p \<and> nat p < length ps \<and> ps ! nat p = Data d)"
  by (auto simp: dataAt_def pageAt_def split: option.splits FilePage.splits)

lemma unPinPage_Inl: "unPinPage w f p d = Inl st \<Longrightarrow> st \<noteq> OK"
  by (auto simp: unPinPage_def split: if_splits)

lemma allocPage_Inl: "allocPage w f = Inl st \<Longrightarrow> st \<noteq> OK"
  by (auto simp: allocPage_def split: if_splits option.splits)

lemma toLastPage_Inr:
  "toLastPage hdr this w = Inr (this1, w1) \<Longrightarrow>
     files w1 = files w \<and> filePtr this1 = filePtr this \<and> headerPageNo this1 = headerPageNo this"
  by (auto simp: toLastPage_def unPinPage_def readPage_def split: if_splits sum.splits option.splits)

lemma toLastPage_Inl:
  "toLastPage hdr this w = Inl (st, w1) \<Longrightarrow> files w1 = files w \<and> st \<noteq> OK"
  by (auto simp: toLastPage_def unPinPage_def readPage_def split: if_splits sum.splits option.splits)

lemma hdrAt_first:
  "files w f = Some ps \<Longrightarrow> 0 < length ps \<Longrightarrow> ps ! 0 = Hdr hdr \<Longrightarrow> hdrAt w f 0 = Some hdr"
  by (simp add: hdrAt_def pageAt_def)

lemma countRecord_eq:
  "files w (filePtr this) = Some ps \<Longrightarrow> 0 < length ps \<Longrightarrow> ps ! 0 = Hdr hdr \<Longrightarrow>
   headerPageNo this = 0 \<Longrightarrow>
     countRecord rid this w =
       Ret (OK, rid, this\<lparr>curRec := rid, curDirtyFlag := True\<rparr>,
            w\<lparr>files := (files w)(filePtr this \<mapsto> ps[0 := Hdr (hdr\<lparr>recCnt := recCnt hdr + 1\<rparr>)])\<rparr>)"
  by (simp add: countRecord_def hdrAt_first putPage_def)

text \<open>The growth path, from the failed first insert on.\<close>

lemma grow_eq:
  assumes ps: "files w3 f = Some ps" "0 < length ps" "ps ! 0 = Hdr hdr"
    and al: "allocPage w3 f = Inr (n, w4)"
    and h: "filePtr this1 = f" "headerPageNo this1 = 0"
    and len: "int (length rec) \<le> PAGESIZE - DPFIXED"
  shows "\<exists>this2 w7 pg2.
    (let w5 = putPage w4 (filePtr this1) n (Data (Page_init n)) in
       (case hdrAt w5 (filePtr this1) (headerPageNo this1) of
          None \<Rightarrow> Undefined
        | Some hdr1 \<Rightarrow>
       let w6 = putPage w5 (filePtr this1) (headerPageNo this1)
                  (Hdr (hdr1\<lparr>lastPage := n, pageCnt := pageCnt hdr1 + 1\<rparr>));
           this2 = this1\<lparr>curPage := Some n, curPageNo := n,
                         curDirtyFlag := False, curRec := NULLRID\<rparr>
       in
       (case Page_insertRecord (Page_init n) rec rid1 of
          (status2, rid2, pg2) \<Rightarrow>
            countRecord rid2 this2 (putPage w6 (filePtr this1) n (Data pg2)))))
     = Ret (OK, \<lparr>pageNo = n, slotNo = 0\<rparr>, this2, w7) \<and>
     filePtr this2 = f \<and> headerPageNo this2 = 0 \<and> slot pg2 = [Some rec] \<and> n = int (length ps) \<and>
     files w7 = (files w3)(f \<mapsto> (ps @ [Data pg2])
        [0 := Hdr (hdr\<lparr>lastPage := int (length ps), pageCnt := pageCnt hdr + 1,
                        recCnt := recCnt hdr + 1\<rparr>)])"
proof -
  from allocPage_files [OF al] ps
  have n: "n = int (length ps)" and f4: "files w4 = (files w3)(f \<mapsto> ps @ [Raw])"
    by auto
  define pg2 where "pg2 = (Page_init n)\<lparr>slot := [Some rec], freeSpace := PAGESIZE - DPFIXED - int (length rec)\<rparr>"
  have ins: "Page_insertRecord (Page_init n) rec rid1 = (OK, \<lparr>pageNo = n, slotNo = 0\<rparr>, pg2)"
    using len by (simp add: Page_insertRecord_def Page_init_def pg2_def)
  define w5 where "w5 = putPage w4 f n (Data (Page_init n))"
  have f5: "files w5 = (files w3)(f \<mapsto> ps @ [Data (Page_init n)])"
    unfolding w5_def using f4 n by (simp add: putPage_def)
  have h5: "hdrAt w5 f 0 = Some hdr"
    using f5 ps by (simp add: hdrAt_def pageAt_def nth_append)
  define hdr1 where "hdr1 = hdr\<lparr>lastPage := n, pageCnt := pageCnt hdr + 1\<rparr>"
  define w6 where "w6 = putPage w5 f 0 (Hdr hdr1)"
  have f6: "files w6 = (files w3)(f \<mapsto> (ps @ [Data (Page_init n)])[0 := Hdr hdr1])"
    unfolding w6_def using f5 ps by (simp add: putPage_def)
  define w7 where "w7 = putPage w6 f n (Data pg2)"
  have f7: "files w7 = (files w3)(f \<mapsto> (ps @ [Data pg2])[0 := Hdr hdr1])"
    unfolding w7_def using f6 ps n
    by (simp add: putPage_def list_update_append list_update_swap [of 0])
  define this2 where "this2 = this1\<lparr>curPage := Some n, curPageNo := n,
                         curDirtyFlag := False, curRec := NULLRID\<rparr>"
  have cr: "countRecord \<lparr>pageNo = n, slotNo = 0\<rparr> this2 w7 =
      Ret (OK, \<lparr>pageNo = n, slotNo = 0\<rparr>,
           this2\<lparr>curRec := \<lparr>pageNo = n, slotNo = 0\<rparr>, curDirtyFlag := True\<rparr>,
           w7\<lparr>files := (files w7)(filePtr this2 \<mapsto>
               ((ps @ [Data pg2])[0 := Hdr hdr1])[0 := Hdr (hdr1\<lparr>recCnt := recCnt hdr1 + 1\<rparr>)])\<rparr>)"
    by (rule countRecord_eq) (use f7 h ps in \<open>simp_all add: this2_def\<close>)
  have eq: "(let w5 = putPage w4 (filePtr this1) n (Data (Page_init n)) in
       (case hdrAt w5 (filePtr this1) (headerPageNo this1) of
          None \<Rightarrow> Undefined
        | Some hdr1 \<Rightarrow>
       let w6 = putPage w5 (filePtr this1) (headerPageNo this1)
                  (Hdr (hdr1\<lparr>lastPage := n, pageCnt := pageCnt hdr1 + 1\<rparr>));
           this2 = this1\<lparr>curPage := Some n, curPageNo := n,
                         curDirtyFlag := False, curRec := NULLRID\<rparr>
       in
       (case Page_insertRecord (Page_init n) rec rid1 of
          (status2, rid2, pg2) \<Rightarrow>
            countRecord rid2 this2 (putPage w6 (filePtr this1) n (Data pg2)))))
     = countRecord \<lparr>pageNo = n, slotNo = 0\<rparr> this2 w7"
    using h5 ins by (simp add: h w5_def [symmetric] hdr1_def [symmetric] w6_def [symmetric]
        w7_def [symmetric] this2_def [symmetric])
  define this3 where "this3 = this2\<lparr>curRec := \<lparr>pageNo = n, slotNo = 0\<rparr>, curDirtyFlag := True\<rparr>"
  define w8 where "w8 = w7\<lparr>files := (files w7)(filePtr this2 \<mapsto>
               ((ps @ [Data pg2])[0 := Hdr hdr1])[0 := Hdr (hdr1\<lparr>recCnt := recCnt hdr1 + 1\<rparr>)])\<rparr>"
  have props: "filePtr this3 = f \<and> headerPageNo this3 = 0 \<and> slot pg2 = [Some rec] \<and>
     n = int (length ps) \<and>
     files w8 = (files w3)(f \<mapsto> (ps @ [Data pg2])
        [0 := Hdr (hdr\<lparr>lastPage := int (length ps), pageCnt := pageCnt hdr + 1,
                        recCnt := recCnt hdr + 1\<rparr>)])"
    using f7 h n by (simp add: this3_def this2_def w8_def pg2_def hdr1_def)
  show ?thesis
    apply (rule exI [of _ this3], rule exI [of _ w8], rule exI [of _ pg2])
    using props cr unfolding eq this3_def [symmetric] w8_def [symmetric] by simp
qed

lemma insertRecord_files:
  assumes "InsertFileScan_insertRecord rec outRid rid this w = Ret (status, rid', this', w')"
    and "headerPageNo this = 0"
  shows "filePtr this' = filePtr this \<and> headerPageNo this' = 0 \<and>
    ((status \<noteq> OK \<and> files w' = files w) \<or>
     (\<exists>ps hdr p pg. status = OK \<and> files w (filePtr this) = Some ps \<and> 0 < p \<and> nat p < length ps \<and>
        ps ! 0 = Hdr hdr \<and> ps ! nat p = Data pg \<and>
        files w' = (files w)(filePtr this \<mapsto>
           (ps[nat p := Data (pg\<lparr>slot := slot pg @ [Some rec],
                                  freeSpace := freeSpace pg - int (length rec)\<rparr>)])
             [0 := Hdr (hdr\<lparr>recCnt := recCnt hdr + 1\<rparr>)])) \<or>
     (\<exists>ps hdr pg. status = OK \<and> files w (filePtr this) = Some ps \<and> 0 < length ps \<and>
        ps ! 0 = Hdr hdr \<and> slot pg = [Some rec] \<and>
        files w' = (files w)(filePtr this \<mapsto>
           (ps @ [Data pg])
             [0 := Hdr (hdr\<lparr>lastPage := int (length ps), pageCnt := pageCnt hdr + 1,
                             recCnt := recCnt hdr + 1\<rparr>)])))"
proof -
  let ?f = "filePtr this"
  from assms(1) have len: "int (length rec) \<le> PAGESIZE - DPFIXED \<or> (status \<noteq> OK \<and> w' = w \<and> this' = this)"
    by (auto simp: InsertFileScan_insertRecord_def insertRecordWith_def split: if_splits)
  show ?thesis
  proof (cases "int (length rec) > PAGESIZE - DPFIXED")
    case True
    with assms show ?thesis
      by (auto simp: InsertFileScan_insertRecord_def insertRecordWith_def)
  next
    case False
    from assms(1) False obtain hdr where hdr: "hdrAt w ?f 0 = Some hdr"
      using assms(2)
      by (auto simp: InsertFileScan_insertRecord_def insertRecordWith_def split: option.splits)
    show ?thesis
    proof (cases "toLastPage hdr this w")
      case (Inl a)
      with assms False hdr show ?thesis
        by (cases a) (auto simp: InsertFileScan_insertRecord_def insertRecordWith_def dest: toLastPage_Inl)
    next
      case (Inr b)
      obtain this1 w1 where b: "b = (this1, w1)" by (cases b)
      note tl = toLastPage_Inr [OF Inr [unfolded b]]
      from assms False hdr Inr b obtain p pg where
        p: "curPage this1 = Some p" and pg1: "dataAt w1 (filePtr this1) p = Some pg"
        by (auto simp: InsertFileScan_insertRecord_def insertRecordWith_def split: option.splits)
      from pg1 tl have pg: "dataAt w1 ?f p = Some pg" by simp
      from hdr obtain ps where ps: "files w ?f = Some ps" "0 < length ps" "ps ! 0 = Hdr hdr"
        by (auto simp: hdrAt_Some)
      from pg tl ps have pr: "0 \<le> p" "nat p < length ps" "ps ! nat p = Data pg"
        by (auto simp: dataAt_Some)
      with ps have p0: "0 < p" by (cases "p = 0") auto
      have f1: "files w1 = files w" and fp1: "filePtr this1 = ?f" and hp1: "headerPageNo this1 = 0"
        using tl assms(2) by auto
      show ?thesis
      proof (cases "freeSpace pg < int (length rec)")
        case fits: False
        define pg1 where "pg1 = pg\<lparr>slot := slot pg @ [Some rec],
                                  freeSpace := freeSpace pg - int (length rec)\<rparr>"
        define w2 where "w2 = putPage w1 (filePtr this1) p (Data pg1)"
        have f2: "files w2 = (files w)(?f \<mapsto> ps[nat p := Data pg1])"
          unfolding w2_def using ps pr f1 fp1 by (simp add: putPage_def)
        have cr: "countRecord \<lparr>pageNo = pgNo pg, slotNo = int (length (slot pg))\<rparr> this1 w2 =
           Ret (OK, \<lparr>pageNo = pgNo pg, slotNo = int (length (slot pg))\<rparr>,
                this1\<lparr>curRec := \<lparr>pageNo = pgNo pg, slotNo = int (length (slot pg))\<rparr>,
                      curDirtyFlag := True\<rparr>,
                w2\<lparr>files := (files w2)(filePtr this1 \<mapsto>
                     (ps[nat p := Data pg1])[0 := Hdr (hdr\<lparr>recCnt := recCnt hdr + 1\<rparr>)])\<rparr>)"
          by (rule countRecord_eq) (use f2 fp1 hp1 ps pr p0 in simp_all)
        from assms(1) False hdr Inr b p pg1 fits
        have "countRecord \<lparr>pageNo = pgNo pg, slotNo = int (length (slot pg))\<rparr> this1 w2
                = Ret (status, rid', this', w')"
          unfolding w2_def pg1_def
          by (simp add: InsertFileScan_insertRecord_def insertRecordWith_def assms(2)
              Page_insertRecord_def)
        with cr have "status = OK" "this' = this1\<lparr>curRec := \<lparr>pageNo = pgNo pg, slotNo = int (length (slot pg))\<rparr>,
                      curDirtyFlag := True\<rparr>"
            "w' = w2\<lparr>files := (files w2)(filePtr this1 \<mapsto>
                     (ps[nat p := Data pg1])[0 := Hdr (hdr\<lparr>recCnt := recCnt hdr + 1\<rparr>)])\<rparr>"
          by simp_all
        then show ?thesis
          using ps pr p0 f2 fp1 hp1 by (auto simp: pg1_def)
      next
        case nospace: True
        define w2 where "w2 = putPage w1 (filePtr this1) p (Data pg)"
        have same: "ps[nat p := Data pg] = ps"
          using pr(3) list_update_id [of ps "nat p"] by simp
        have f2: "files w2 = files w"
          unfolding w2_def using ps pr f1 fp1 same by (simp add: putPage_def map_upd_triv)
        from assms(1) False hdr Inr b p pg1 nospace
        have step: "(case unPinPage w2 (filePtr this1) (curPageNo this1) (curDirtyFlag this1) of
          Inl status1 \<Rightarrow> Ret (status1, NULLRID, this1, w2)
        | Inr w3 \<Rightarrow>
       (case allocPage w3 (filePtr this1) of
          Inl status1 \<Rightarrow> Ret (status1, NULLRID, this1, w3)
        | Inr (newPageNo, w4) \<Rightarrow>
       let w5 = putPage w4 (filePtr this1) newPageNo (Data (Page_init newPageNo)) in
       (case hdrAt w5 (filePtr this1) (headerPageNo this1) of
          None \<Rightarrow> Undefined
        | Some hdr1 \<Rightarrow>
       let w6 = putPage w5 (filePtr this1) (headerPageNo this1)
                  (Hdr (hdr1\<lparr>lastPage := newPageNo, pageCnt := pageCnt hdr1 + 1\<rparr>));
           this2 = this1\<lparr>curPage := Some newPageNo, curPageNo := newPageNo,
                         curDirtyFlag := False, curRec := NULLRID\<rparr>
       in
       (case Page_insertRecord (Page_init newPageNo) rec rid of
          (status2, rid2, pg2) \<Rightarrow>
            countRecord rid2 this2 (putPage w6 (filePtr this1) newPageNo (Data pg2))))))
           = Ret (status, rid', this', w')"
          unfolding w2_def
          by (simp add: InsertFileScan_insertRecord_def insertRecordWith_def assms(2)
              Page_insertRecord_def Let_def)
        show ?thesis
        proof (cases "unPinPage w2 (filePtr this1) (curPageNo this1) (curDirtyFlag this1)")
          case (Inl st)
          with step f2 fp1 hp1 show ?thesis by (auto dest: unPinPage_Inl)
        next
          case up: (Inr w3)
          have f3: "files w3 = files w" using unPinPage_files [OF up] f2 by simp
          show ?thesis
          proof (cases "allocPage w3 (filePtr this1)")
            case (Inl st)
            with step up f3 fp1 hp1 show ?thesis by (auto dest: allocPage_Inl)
          next
            case (Inr c)
            obtain n w4 where c: "c = (n, w4)" by (cases c)
            from grow_eq [OF _ ps(2,3) Inr [unfolded c fp1] fp1 hp1, of rec rid] ps(1) f3 False
            obtain this2 w7 pg2 where g: "(let w5 = putPage w4 (filePtr this1) n (Data (Page_init n)) in
       (case hdrAt w5 (filePtr this1) (headerPageNo this1) of
          None \<Rightarrow> Undefined
        | Some hdr1 \<Rightarrow>
       let w6 = putPage w5 (filePtr this1) (headerPageNo this1)
                  (Hdr (hdr1\<lparr>lastPage := n, pageCnt := pageCnt hdr1 + 1\<rparr>));
           this2 = this1\<lparr>curPage := Some n, curPageNo := n,
                         curDirtyFlag := False, curRec := NULLRID\<rparr>
       in
       (case Page_insertRecord (Page_init n) rec rid of
          (status2, rid2, pg2) \<Rightarrow>
            countRecord rid2 this2 (putPage w6 (filePtr this1) n (Data pg2)))))
     = Ret (OK, \<lparr>pageNo = n, slotNo = 0\<rparr>, this2, w7)"
              and g2: "filePtr this2 = ?f" "headerPageNo this2 = 0" "slot pg2 = [Some rec]"
               "files w7 = (files w3)(?f \<mapsto> (ps @ [Data pg2])
        [0 := Hdr (hdr\<lparr>lastPage := int (length ps), pageCnt := pageCnt hdr + 1,
                        recCnt := recCnt hdr + 1\<rparr>)])"
              by auto
            from step up Inr c g have "status = OK" "this' = this2" "w' = w7"
              by simp_all
            with g2 f3 ps show ?thesis by auto
          qed
        qed
      qed
    qed
  qed
qed

subsection \<open>Counters of the header under an insert\<close>

lemma dataPageCount_files: "files w' = files w \<Longrightarrow> dataPageCount w' = dataPageCount w"
  by (simp add: dataPageCount_def fun_eq_iff)

lemma after_update:
  assumes "files w f = Some ps" "0 < p" "nat p < length ps" "ps ! 0 = Hdr hdr"
    "ps ! nat p = Data pg"
    "files w' = (files w)(f \<mapsto> (ps[nat p := Data pg'])[0 := Hdr hdr'])"
  shows "liveRecords w' f + int (liveCount pg) = liveRecords w f + int (liveCount pg')"
    and "dataPageCount w' f = dataPageCount w f" and "hdrAt w' f 0 = Some hdr'"
proof -
  have h: "(ps[nat p := Data pg']) ! 0 = Hdr hdr" "0 < length (ps[nat p := Data pg'])"
    using assms by auto
  have d: "dataPages ((ps[nat p := Data pg'])[0 := Hdr hdr']) = dataPages (ps[nat p := Data pg'])"
    using dataPages_update_hdr [OF h(2) h(1)] .
  have s: "sum_list (map liveCount (dataPages (ps[nat p := Data pg']))) + liveCount pg =
       sum_list (map liveCount (dataPages ps)) + liveCount pg'"
    using dataPages_update_data_sum [OF assms(3,5)] .
  have l: "length (dataPages (ps[nat p := Data pg'])) = length (dataPages ps)"
    using dataPages_update_data_length [OF assms(3,5)] .
  have "int (sum_list (map liveCount (dataPages (ps[nat p := Data pg'])))) + int (liveCount pg) =
       int (sum_list (map liveCount (dataPages ps))) + int (liveCount pg')"
    using s by linarith
  moreover have "ps \<noteq> []" using assms(3) by auto
  ultimately show "liveRecords w' f + int (liveCount pg) = liveRecords w f + int (liveCount pg')"
    and "dataPageCount w' f = dataPageCount w f" and "hdrAt w' f 0 = Some hdr'"
    using assms d l by (simp_all add: liveRecords_def dataPageCount_def hdrAt_def pageAt_def)
qed

lemma after_append:
  assumes "files w f = Some ps" "0 < length ps" "ps ! 0 = Hdr hdr"
    "files w' = (files w)(f \<mapsto> (ps @ [Data pg])[0 := Hdr hdr'])"
  shows "liveRecords w' f = liveRecords w f + int (liveCount pg)"
    and "dataPageCount w' f = dataPageCount w f + 1" and "hdrAt w' f 0 = Some hdr'"
proof -
  have h: "(ps @ [Data pg]) ! 0 = Hdr hdr" "0 < length (ps @ [Data pg])"
    using assms by (auto simp: nth_append)
  have d: "dataPages ((ps @ [Data pg])[0 := Hdr hdr']) = dataPages ps @ [pg]"
    using dataPages_update_hdr [OF h(2) h(1)] by (simp add: dataPages_append)
  show "liveRecords w' f = liveRecords w f + int (liveCount pg)"
    and "dataPageCount w' f = dataPageCount w f + 1" and "hdrAt w' f 0 = Some hdr'"
    using assms d by (simp_all add: liveRecords_def dataPageCount_def hdrAt_def pageAt_def)
qed

lemma insertRecord_cases [consumes 2, case_names same plain grow]:
  assumes "InsertFileScan_insertRecord rec outRid rid this w = Ret (status, rid', this', w')"
    and "headerPageNo this = 0"
  obtains
    (same) "status \<noteq> OK" "files w' = files w"
  | (plain) ps h p pg where "status = OK" "files w (filePtr this) = Some ps" "0 < p"
        "nat p < length ps" "ps ! 0 = Hdr h" "ps ! nat p = Data pg"
        "files w' = (files w)(filePtr this \<mapsto>
           (ps[nat p := Data (pg\<lparr>slot := slot pg @ [Some rec],
                                  freeSpace := freeSpace pg - int (length rec)\<rparr>)])
             [0 := Hdr (h\<lparr>recCnt := recCnt h + 1\<rparr>)])"
  | (grow) ps h pg where "status = OK" "files w (filePtr this) = Some ps" "0 < length ps"
        "ps ! 0 = Hdr h" "slot pg = [Some rec]"
        "files w' = (files w)(filePtr this \<mapsto>
           (ps @ [Data pg])
             [0 := Hdr (h\<lparr>lastPage := int (length ps), pageCnt := pageCnt h + 1,
                             recCnt := recCnt h + 1\<rparr>)])"
proof -
  from insertRecord_files [OF assms]
  have "(status \<noteq> OK \<and> files w' = files w) \<or>
     (\<exists>ps hdr p pg. status = OK \<and> files w (filePtr this) = Some ps \<and> 0 < p \<and> nat p < length ps \<and>
        ps ! 0 = Hdr hdr \<and> ps ! nat p = Data pg \<and>
        files w' = (files w)(filePtr this \<mapsto>
           (ps[nat p := Data (pg\<lparr>slot := slot pg @ [Some rec],
                                  freeSpace := freeSpace pg - int (length rec)\<rparr>)])
             [0 := Hdr (hdr\<lparr>recCnt := recCnt hdr + 1\<rparr>)])) \<or>
     (\<exists>ps hdr pg. status = OK \<and> files w (filePtr this) = Some ps \<and> 0 < length ps \<and>
        ps ! 0 = Hdr hdr \<and> slot pg = [Some rec] \<and>
        files w' = (files w)(filePtr this \<mapsto>
           (ps @ [Data pg])
             [0 := Hdr (hdr\<lparr>lastPage := int (length ps), pageCnt := pageCnt hdr + 1,
                             recCnt := recCnt hdr + 1\<rparr>)]))"
    by (rule conjunct2 [THEN conjunct2])
  then show thesis
  proof (elim disjE exE conjE)
    assume "status \<noteq> OK" "files w' = files w"
    then show thesis by (rule same)
  next
    fix ps hdr p pg
    assume "status = OK" "files w (filePtr this) = Some ps" "0 < p"
        "nat p < length ps" "ps ! 0 = Hdr hdr" "ps ! nat p = Data pg"
        "files w' = (files w)(filePtr this \<mapsto>
           (ps[nat p := Data (pg\<lparr>slot := slot pg @ [Some rec],
                                  freeSpace := freeSpace pg - int (length rec)\<rparr>)])
             [0 := Hdr (hdr\<lparr>recCnt := recCnt hdr + 1\<rparr>)])"
    then show thesis by (rule plain)
  next
    fix ps hdr pg
    assume "status = OK" "files w (filePtr this) = Some ps" "0 < length ps"
        "ps ! 0 = Hdr hdr" "slot pg = [Some rec]"
        "files w' = (files w)(filePtr this \<mapsto>
           (ps @ [Data pg])
             [0 := Hdr (hdr\<lparr>lastPage := int (length ps), pageCnt := pageCnt hdr + 1,
                             recCnt := recCnt hdr + 1\<rparr>)])"
    then show thesis by (rule grow)
  qed
qed

lemma createHeapFile_files:
  "createHeapFile M name w = (OK, w') \<Longrightarrow>
     files w' = (files w)(name \<mapsto>
        [Hdr \<lparr>fileName = name, firstPage = 1, lastPage = 1, pageCnt = 1, recCnt = 0\<rparr>,
         Data (Page_init 1)])"
  by (auto simp: createHeapFile_def openFile_def createFile_def allocPage_def putPage_def
        unPinPage_def Let_def split: if_splits sum.splits option.splits prod.splits)

lemma created_counts:
  assumes "createHeapFile M name w0 = (OK, w1)"
  shows "\<exists>hdr. hdrAt w1 name 0 = Some hdr \<and> recCnt hdr = liveRecords w1 name \<and>
               pageCnt hdr = dataPageCount w1 name"
  using createHeapFile_files [OF assms]
  by (simp add: hdrAt_def pageAt_def liveRecords_def dataPageCount_def liveCount_def Page_init_def)

subsection \<open>The sample file: creation and opening, evaluated\<close>

lemmas bufDefs = createFile_def openFile_def getFirstPage_def framesFull_def allocPage_def
  readPage_def unPinPage_def pageAt_def hdrAt_def dataAt_def putPage_def deref_def
  unPinLogged_def reuseFrames_def

lemmas pageDefs = Page_init_def Page_insertRecord_def Page_deleteRecord_def Page_getRecord_def
  liveFrom_def Page_firstRecord_def Page_nextRecord_def live_def PAGESIZE_def DPFIXED_def

lemmas sampleDefs = emptyWorld_def blankFile_def blankScan_def freshHdr_def freshWorld_def
  openedFile_def openedScan_def openedWorld_def oneRecordPage_def insertedFile_def
  insertedWorld_def storedWorld_def bigRecord_def bigPage_def twoPageFile_def
  twoPageWorld_def twoPageScanWorld_def crowdedWorld_def linkedWorld_def
  savedWorld_def savedOpenedWorld_def savedInsertedWorld_def unsavedWorld_def lostWorld_def
  lostOpenedWorld_def savedTwoPageWorld_def unsavedTwoPageWorld_def lostTwoPageWorld_def

lemma created: "createHeapFile 50 ''t'' (emptyWorld 4) = (OK, freshWorld)"
  by (simp add: createHeapFile_def sampleDefs bufDefs)

lemma openedInsert:
  "InsertFileScan_ctor ''t'' OK blankFile freshWorld = Ret (OK, openedFile, openedWorld)"
  by (simp add: InsertFileScan_ctor_def HeapFile_ctor_def sampleDefs bufDefs)

lemma openedForScan:
  "HeapFileScan_ctor ''t'' OK blankScan freshWorld = Ret (OK, openedScan, openedWorld)"
  by (simp add: HeapFileScan_ctor_def HeapFile_ctor_def sampleDefs bufDefs)

lemma insertedOne:
  "InsertFileScan_insertRecord [1, 2, 3] NULLRID rid openedFile openedWorld =
     Ret (OK, \<lparr>pageNo = 1, slotNo = 0\<rparr>, insertedFile, insertedWorld)"
  by (simp add: InsertFileScan_insertRecord_def insertRecordWith_def toLastPage_def
        countRecord_def sampleDefs bufDefs pageDefs)

lemma closedInsert: "InsertFileScan_dtor insertedFile insertedWorld = storedWorld"
  by (simp add: InsertFileScan_dtor_def HeapFile_dtor_def sampleDefs bufDefs)

lemma reopenedForScan:
  "HeapFileScan_ctor ''t'' OK blankScan storedWorld = Ret (OK, openedScan, insertedWorld)"
  by (simp add: HeapFileScan_ctor_def HeapFile_ctor_def sampleDefs bufDefs)

subsection \<open>Appending records of one length\<close>

lemma appendingD:
  assumes "appending P fr k this w"
  obtains ps hdr pg where "0 < P" "filePtr this = ''t''" "headerPageNo this = 0"
    "curPage this = Some (int P)" "curPageNo this = int P" "numBufs w = 4"
    "pinned w = [(''t'', int P), (''t'', 0)]" "files w ''t'' = Some ps" "length ps = Suc P"
    "ps ! 0 = Hdr hdr" "lastPage hdr = int P" "pageCnt hdr = int P" "recCnt hdr = k"
    "ps ! P = Data pg" "freeSpace pg = fr"
  using assms
  by (auto simp: appending_def split: option.splits FilePage.splits)

lemma insert_appending:
  assumes a: "appending P fr k this w" and len: "int (length rec) \<le> PAGESIZE - DPFIXED"
  shows "\<exists>outRid this' w'.
     InsertFileScan_insertRecord rec NULLRID rid this w = Ret (OK, outRid, this', w') \<and>
     appending (fst (fill (int (length rec)) (P, fr))) (snd (fill (int (length rec)) (P, fr)))
       (k + 1) this' w'"
proof -
  from a obtain ps hdr pg where f: "0 < P" "filePtr this = ''t''" "headerPageNo this = 0"
    "curPage this = Some (int P)" "curPageNo this = int P" "numBufs w = 4"
    "pinned w = [(''t'', int P), (''t'', 0)]" "files w ''t'' = Some ps" "length ps = Suc P"
    "ps ! 0 = Hdr hdr" "lastPage hdr = int P" "pageCnt hdr = int P" "recCnt hdr = k"
    "ps ! P = Data pg" "freeSpace pg = fr"
    by (rule appendingD)
  have h: "hdrAt w ''t'' 0 = Some hdr" using f by (simp add: hdrAt_def pageAt_def)
  have d: "dataAt w ''t'' (int P) = Some pg" using f by (simp add: dataAt_def pageAt_def)
  have tl: "toLastPage hdr this w = Inr (this, w)" using f by (simp add: toLastPage_def)
  show ?thesis
  proof (cases "int (length rec) \<le> fr")
    case True
    have "InsertFileScan_insertRecord rec NULLRID rid this w =
        Ret (OK, \<lparr>pageNo = pgNo pg, slotNo = int (length (slot pg))\<rparr>,
             this\<lparr>curRec := \<lparr>pageNo = pgNo pg, slotNo = int (length (slot pg))\<rparr>,
                   curDirtyFlag := True\<rparr>,
             w\<lparr>files := (files w)(''t'' \<mapsto>
                 (ps[P := Data (pg\<lparr>slot := slot pg @ [Some rec],
                                   freeSpace := fr - int (length rec)\<rparr>)])
                   [0 := Hdr (hdr\<lparr>recCnt := k + 1\<rparr>)])\<rparr>)"
      using f len True h d tl
      by (simp add: InsertFileScan_insertRecord_def insertRecordWith_def Page_insertRecord_def
            countRecord_def putPage_def hdrAt_def pageAt_def)
    moreover have "appending P (fr - int (length rec)) (k + 1)
         (this\<lparr>curRec := \<lparr>pageNo = pgNo pg, slotNo = int (length (slot pg))\<rparr>,
                   curDirtyFlag := True\<rparr>)
         (w\<lparr>files := (files w)(''t'' \<mapsto>
                 (ps[P := Data (pg\<lparr>slot := slot pg @ [Some rec],
                                   freeSpace := fr - int (length rec)\<rparr>)])
                   [0 := Hdr (hdr\<lparr>recCnt := k + 1\<rparr>)])\<rparr>)"
      using f by (simp add: appending_def)
    ultimately show ?thesis using True by (simp add: fill_def)
  next
    case False
    define pg2 where "pg2 = (Page_init (int (Suc P)))\<lparr>slot := [Some rec],
        freeSpace := PAGESIZE - DPFIXED - int (length rec)\<rparr>"
    define hdr2 where "hdr2 = hdr\<lparr>lastPage := int (Suc P), pageCnt := int P + 1, recCnt := k + 1\<rparr>"
    have same: "ps[P := Data pg] = ps" using f(14) list_update_id [of ps P] by simp
    have n: "nat (1 + int P) = Suc P" by simp
    define m where
      "m = (if curDirtyFlag this then List.insert (''t'', int P) (marked w) else marked w)"
    have "InsertFileScan_insertRecord rec NULLRID rid this w =
        Ret (OK, \<lparr>pageNo = int (Suc P), slotNo = 0\<rparr>,
             this\<lparr>curPage := Some (int (Suc P)), curPageNo := int (Suc P),
                   curRec := \<lparr>pageNo = int (Suc P), slotNo = 0\<rparr>, curDirtyFlag := True\<rparr>,
             w\<lparr>files := (files w)(''t'' \<mapsto> (ps @ [Data pg2])[0 := Hdr hdr2]),
               disk := (disk w)(''t'' := disk w ''t'' @ [Raw]), marked := m,
               pinned := [(''t'', int (Suc P)), (''t'', 0)]\<rparr>)"
      using f len False h d tl same n
      by (simp add: InsertFileScan_insertRecord_def insertRecordWith_def Page_insertRecord_def
            countRecord_def putPage_def hdrAt_def pageAt_def unPinPage_def allocPage_def
            framesFull_def Page_init_def pg2_def hdr2_def nth_append list_update_append
            list_update_swap [of 0] Let_def m_def)
    moreover have "appending (Suc P) (PAGESIZE - DPFIXED - int (length rec)) (k + 1)
         (this\<lparr>curPage := Some (int (Suc P)), curPageNo := int (Suc P),
                   curRec := \<lparr>pageNo = int (Suc P), slotNo = 0\<rparr>, curDirtyFlag := True\<rparr>)
         (w\<lparr>files := (files w)(''t'' \<mapsto> (ps @ [Data pg2])[0 := Hdr hdr2]),
               disk := (disk w)(''t'' := disk w ''t'' @ [Raw]), marked := m,
               pinned := [(''t'', int (Suc P)), (''t'', 0)]\<rparr>)"
      using f by (simp add: appending_def nth_append pg2_def hdr2_def)
    ultimately show ?thesis using False by (simp add: fill_def)
  qed
qed

lemma insertAll_appending:
  "appending P fr k this w \<Longrightarrow> int len \<le> PAGESIZE - DPFIXED \<Longrightarrow> length rec = len \<Longrightarrow>
     \<exists>rids this' w'. insertAll (replicate n rec) rid this w = Some (rids, this', w') \<and>
        length rids = n \<and>
        appending (fst ((fill (int len) ^^ n) (P, fr))) (snd ((fill (int len) ^^ n) (P, fr)))
          (k + int n) this' w'"
proof (induction n arbitrary: P fr k this w)
  case 0
  then show ?case by simp
next
  case (Suc n)
  obtain P1 fr1 where s: "fill (int len) (P, fr) = (P1, fr1)"
    by (cases "fill (int len) (P, fr)")
  from insert_appending [OF Suc.prems(1), of rec rid] Suc.prems(2,3) s
  obtain outRid this1 w1 where
    i: "InsertFileScan_insertRecord rec NULLRID rid this w = Ret (OK, outRid, this1, w1)"
    and a: "appending P1 fr1 (k + 1) this1 w1"
    by auto
  from Suc.IH [OF a Suc.prems(2,3)] obtain rids this' w' where
    r: "insertAll (replicate n rec) rid this1 w1 = Some (rids, this', w')" "length rids = n"
      "appending (fst ((fill (int len) ^^ n) (P1, fr1))) (snd ((fill (int len) ^^ n) (P1, fr1)))
          (k + 1 + int n) this' w'"
    by blast
  have "(fill (int len) ^^ Suc n) (P, fr) = (fill (int len) ^^ n) (P1, fr1)"
    using s by (simp add: funpow_swap1)
  then have e1: "(fill (int len) ^^ n) (P1, fr1) = (fill (int len) ^^ Suc n) (P, fr)"
    by (rule sym)
  have e2: "k + 1 + int n = k + int (Suc n)" by simp
  from r(3) have app: "appending (fst ((fill (int len) ^^ Suc n) (P, fr)))
      (snd ((fill (int len) ^^ Suc n) (P, fr))) (k + int (Suc n)) this' w'"
    by (simp only: e1 e2)
  have ins: "insertAll (replicate (Suc n) rec) rid this w = Some (outRid # rids, this', w')"
    using i r(1) by simp
  have l: "length (outRid # rids) = Suc n" using r(2) by simp
  from ins l app show ?case by blast
qed

lemma appending_opened: "appending 1 1004 0 openedFile openedWorld"
  by (simp add: appending_def openedFile_def openedWorld_def freshWorld_def freshHdr_def
        Page_init_def PAGESIZE_def DPFIXED_def)

lemma fill500: "(fill 40 ^^ 500) (1, 1004) = (20, 4)"
  by (simp add: eval_nat_numeral fill_def PAGESIZE_def DPFIXED_def)

subsection \<open>The sample scans and inserts, evaluated\<close>

lemmas insertDefs = InsertFileScan_insertRecord_def insertRecordWith_def toLastPage_def
  countRecord_def

lemma insertedTwo:
  "insertAll [bigRecord, bigRecord] rid openedFile openedWorld =
     Some ([\<lparr>pageNo = 1, slotNo = 0\<rparr>, \<lparr>pageNo = 2, slotNo = 0\<rparr>], twoPageFile, twoPageWorld)"
  by (simp add: insertDefs sampleDefs bufDefs pageDefs)

lemma closedTwo:
  "HeapFileScan_ctor ''t'' OK blankScan (InsertFileScan_dtor twoPageFile twoPageWorld) =
     Ret (OK, openedScan, twoPageScanWorld)"
  by (simp add: InsertFileScan_dtor_def HeapFile_dtor_def HeapFileScan_ctor_def HeapFile_ctor_def
        sampleDefs bufDefs)

lemma scanOne:
  "scanNext (Suc n) outRid nextRid openedScan insertedWorld =
     Ret (OK, outRid, openedScan\<lparr>curRec := \<lparr>pageNo = 1, slotNo = 0\<rparr>\<rparr>, insertedWorld)"
  by (simp add: scanNext_def scanPass_def matchRec_def NULLRID_def sampleDefs bufDefs pageDefs)

lemma scanTwoFirst:
  "scanNext (Suc n) outRid nextRid openedScan twoPageScanWorld =
     Ret (OK, outRid, openedScan\<lparr>curRec := \<lparr>pageNo = 1, slotNo = 0\<rparr>\<rparr>, twoPageScanWorld)"
  by (simp add: scanNext_def scanPass_def matchRec_def NULLRID_def sampleDefs bufDefs pageDefs)

lemma scanTwoSecond:
  "scanNext (Suc n) outRid nextRid (openedScan\<lparr>curRec := \<lparr>pageNo = 1, slotNo = 0\<rparr>\<rparr>)
       twoPageScanWorld =
     Ret (FILEEOF, outRid, openedScan\<lparr>curRec := \<lparr>pageNo = 1, slotNo = 0\<rparr>\<rparr>, twoPageScanWorld)"
  by (simp add: scanNext_def scanPass_def matchRec_def NULLRID_def sampleDefs bufDefs pageDefs)

lemma scanEmpty:
  "scanNext (Suc n) outRid nextRid (snd (startScan off len ty flt opr openedScan)) openedWorld =
     Ret (INVALIDSLOTNO, outRid, snd (startScan off len ty flt opr openedScan), openedWorld)"
  by (cases flt)
     (simp_all add: startScan_def scanNext_def scanPass_def NULLRID_def sampleDefs bufDefs pageDefs)

subsection \<open>The dirty flag of the header\<close>

lemma countRecord_hdrDirtyFlag:
  "countRecord rid this w = Ret (status, rid', this', w') \<Longrightarrow>
     hdrDirtyFlag this' = hdrDirtyFlag this"
  by (auto simp: countRecord_def split: option.splits)

lemma toLastPage_hdrDirtyFlag:
  "toLastPage hdr this w = Inr (this1, w1) \<Longrightarrow> hdrDirtyFlag this1 = hdrDirtyFlag this"
  by (auto simp: toLastPage_def split: if_splits sum.splits)

lemma insertRecord_hdrDirtyFlag:
  assumes "insertRecordWith pageInsert rec outRid rid this w = Ret (status, rid', this', w')"
  shows "hdrDirtyFlag this' = hdrDirtyFlag this"
proof (cases "int (length rec) > PAGESIZE - DPFIXED")
  case True
  with assms show ?thesis by (simp add: insertRecordWith_def)
next
  case False
  with assms obtain hdr where hdr: "hdrAt w (filePtr this) (headerPageNo this) = Some hdr"
    by (auto simp: insertRecordWith_def split: option.splits)
  show ?thesis
  proof (cases "toLastPage hdr this w")
    case (Inl a)
    with assms False hdr show ?thesis by (cases a) (simp add: insertRecordWith_def)
  next
    case (Inr b)
    obtain this1 w1 where b: "b = (this1, w1)" by (cases b)
    from toLastPage_hdrDirtyFlag [OF Inr [unfolded b]]
    have k: "hdrDirtyFlag this1 = hdrDirtyFlag this" .
    from assms False hdr Inr b k show ?thesis
      by (auto simp: insertRecordWith_def Let_def
               split: option.splits prod.splits if_splits sum.splits
               dest!: countRecord_hdrDirtyFlag)
  qed
qed

lemma deleteRecord_hdrDirtyFlag:
  "deleteRecord this w = Ret (status, this', w') \<Longrightarrow> hdrDirtyFlag this'"
  by (auto simp: deleteRecord_def Let_def split: option.splits prod.splits)

subsection \<open>The header under writes to other pages\<close>

lemma hdrAt_putPage_same:
  "hdrAt w f p = Some h \<Longrightarrow> hdrAt (putPage w f p (Hdr h')) f p = Some h'"
  by (auto simp: hdrAt_def pageAt_def putPage_def split: option.splits if_splits)

lemma hdrAt_putPage_other:
  "hdrAt w f p = Some h \<Longrightarrow> q \<noteq> p \<Longrightarrow> hdrAt (putPage w f q x) f p = Some h"
  by (auto simp: hdrAt_def pageAt_def putPage_def split: option.splits if_splits)

lemma hdrAt_allocPage:
  "allocPage w f = Inr (n, w') \<Longrightarrow> hdrAt w f p = Some h \<Longrightarrow> hdrAt w' f p = Some h \<and> n \<noteq> p"
  by (auto simp: hdrAt_def pageAt_def allocPage_def nth_append
           split: option.splits if_splits FilePage.splits)

lemma hdr_not_data: "hdrAt w f p = Some h \<Longrightarrow> dataAt w f q = Some d \<Longrightarrow> q \<noteq> p"
  by (auto simp: hdrAt_def dataAt_def split: option.splits FilePage.splits)

subsection \<open>A pool with no free frame\<close>

lemma crowdedSwitch:
  "InsertFileScan_insertRecord [1, 2, 3] NULLRID rid openedFile (crowdedWorld 1) =
     Ret (BUFFEREXCEEDED, NULLRID, openedFile,
          (crowdedWorld 1)\<lparr>pinned := [(''t'', 0), (''t'', 1), (''t'', 0)]\<rparr>)"
  by (simp add: insertDefs sampleDefs bufDefs pageDefs)

lemma crowdedGrow:
  "InsertFileScan_insertRecord bigRecord NULLRID rid twoPageFile (crowdedWorld 2) =
     Ret (BUFFEREXCEEDED, NULLRID, twoPageFile,
          (crowdedWorld 2)\<lparr>marked := [(''t'', 2), (''t'', 0), (''t'', 1)],
                            pinned := [(''t'', 0), (''t'', 2), (''t'', 0)]\<rparr>)"
  by (simp add: insertDefs sampleDefs bufDefs pageDefs)

lemma linkedScan:
  "scanNext (Suc n) outRid nextRid (openedScan\<lparr>curRec := \<lparr>pageNo = 1, slotNo = 0\<rparr>\<rparr>)
       linkedWorld =
     Ret (BUFFEREXCEEDED, outRid, openedScan\<lparr>curRec := \<lparr>pageNo = 1, slotNo = 0\<rparr>\<rparr>,
          linkedWorld\<lparr>pinned := [(''t'', 0), (''t'', 1), (''t'', 0)]\<rparr>)"
  by (simp add: scanNext_def scanPass_def NULLRID_def sampleDefs bufDefs pageDefs)

subsection \<open>header.recCnt\<close>

lemma savedFresh: "reuseFrames freshWorld ''t'' = savedWorld"
  by (simp add: sampleDefs bufDefs)

lemma savedOpened:
  "InsertFileScan_ctor ''t'' OK blankFile savedWorld = Ret (OK, openedFile, savedOpenedWorld)"
  by (simp add: InsertFileScan_ctor_def HeapFile_ctor_def sampleDefs bufDefs)

lemma savedInserted:
  "InsertFileScan_insertRecord [1, 2, 3] NULLRID rid openedFile savedOpenedWorld =
     Ret (OK, \<lparr>pageNo = 1, slotNo = 0\<rparr>, insertedFile, savedInsertedWorld)"
  by (simp add: InsertFileScan_insertRecord_def insertRecordWith_def toLastPage_def
        countRecord_def sampleDefs bufDefs pageDefs)

lemma savedClosed: "InsertFileScan_dtor insertedFile savedInsertedWorld = unsavedWorld"
  by (simp add: InsertFileScan_dtor_def HeapFile_dtor_def sampleDefs bufDefs)

lemma lostHeader: "reuseFrames unsavedWorld ''t'' = lostWorld"
  by (simp add: sampleDefs bufDefs)

lemma lostOpened:
  "HeapFileScan_ctor ''t'' OK blankScan lostWorld = Ret (OK, openedScan, lostOpenedWorld)"
  by (simp add: HeapFileScan_ctor_def HeapFile_ctor_def sampleDefs bufDefs)

text \<open>
  Claim C3. A new file is created and its two pages are written to the disk. A handle
  opens the file, inserts the record \<open>01 02 03\<close> (\<open>insertRecord\<close> returns \<open>OK\<close>) and
  is destroyed: the destructor unpins the data page dirty and the header page with
  \<open>hdrDirtyFlag\<close>, which \<open>insertRecord\<close> has left false, so the frame of the header is
  not marked for writeback. Once the buffer manager has taken back the frames, the disk
  holds the data page with the record and the header as it was before the insert: a handle
  that opens the file reads \<open>getRecCnt() = 0\<close> while the file has one live record.
\<close>

theorem recCnt_lost_after_reopen:
  "createHeapFile 50 ''t'' (emptyWorld 4) = (OK, freshWorld) \<and>
   reuseFrames freshWorld ''t'' = savedWorld \<and>
   InsertFileScan_ctor ''t'' OK blankFile savedWorld = Ret (OK, openedFile, savedOpenedWorld) \<and>
   InsertFileScan_insertRecord [1, 2, 3] NULLRID rid openedFile savedOpenedWorld =
     Ret (OK, \<lparr>pageNo = 1, slotNo = 0\<rparr>, insertedFile, savedInsertedWorld) \<and>
   getRecCnt insertedFile savedInsertedWorld = Ret 1 \<and>
   liveRecords savedInsertedWorld ''t'' = 1 \<and>
   hdrDirtyFlag insertedFile = False \<and>
   InsertFileScan_dtor insertedFile savedInsertedWorld = unsavedWorld \<and>
   marked unsavedWorld = [(''t'', 1)] \<and>
   reuseFrames unsavedWorld ''t'' = lostWorld \<and>
   HeapFileScan_ctor ''t'' OK blankScan lostWorld = Ret (OK, openedScan, lostOpenedWorld) \<and>
   getRecCnt openedScan lostOpenedWorld = Ret 0 \<and>
   liveRecords lostOpenedWorld ''t'' = 1"
proof -
  have "getRecCnt insertedFile savedInsertedWorld = Ret 1"
    "liveRecords savedInsertedWorld ''t'' = 1"
    "hdrDirtyFlag insertedFile = False"
    "marked unsavedWorld = [(''t'', 1)]"
    "getRecCnt openedScan lostOpenedWorld = Ret 0"
    "liveRecords lostOpenedWorld ''t'' = 1"
    by (simp_all add: getRecCnt_def liveRecords_def liveCount_def sampleDefs bufDefs pageDefs)
  then show ?thesis
    by (intro conjI created savedFresh savedOpened savedInserted savedClosed lostHeader lostOpened)
qed

subsection \<open>header.pageCnt\<close>

lemma hdr_unique: "files w f = Some ps \<Longrightarrow> ps ! 0 = Hdr h \<Longrightarrow> hdrAt w f 0 = Some hdr \<Longrightarrow> h = hdr"
  by (simp add: hdrAt_def pageAt_def split: if_splits)

lemma InsertFileScan_ctor_OK:
  "InsertFileScan_ctor name OK this w = Ret (OK, this', w') \<Longrightarrow>
     files w' = files w \<and> filePtr this' = name \<and> headerPageNo this' = 0"
  by (auto simp: InsertFileScan_ctor_def HeapFile_ctor_def openFile_def getFirstPage_def
        readPage_def Let_def split: option.splits sum.splits if_splits)

lemma insert_pageCnt:
  assumes ir: "InsertFileScan_insertRecord rec outRid rid this w = Ret (status, rid', this', w')"
    and h0: "headerPageNo this = 0"
    and inv: "hdrAt w (filePtr this) 0 = Some hdr" "pageCnt hdr = dataPageCount w (filePtr this)"
  shows "\<exists>hdr'. hdrAt w' (filePtr this) 0 = Some hdr' \<and>
               pageCnt hdr' = dataPageCount w' (filePtr this)"
  using ir h0
proof (cases rule: insertRecord_cases)
  case same
  from same(2) have "hdrAt w' = hdrAt w" "dataPageCount w' = dataPageCount w"
    by (rule hdrAt_files, rule dataPageCount_files)
  with inv show ?thesis by simp
next
  case (plain ps h p pg)
  from hdr_unique [OF plain(2,5) inv(1)] have hh: "h = hdr" .
  note a = after_update [OF plain(2,3,4,5,6,7)]
  have "pageCnt (h\<lparr>recCnt := recCnt h + 1\<rparr>) = dataPageCount w' (filePtr this)"
    using a(2) inv(2) hh by simp
  with a(3) show ?thesis by blast
next
  case (grow ps h pg)
  from hdr_unique [OF grow(2,4) inv(1)] have hh: "h = hdr" .
  note a = after_append [OF grow(2,3,4,6)]
  have "pageCnt (h\<lparr>lastPage := int (length ps), pageCnt := pageCnt h + 1,
                       recCnt := recCnt h + 1\<rparr>) = dataPageCount w' (filePtr this)"
    using a(2) inv(2) hh by simp
  with a(3) show ?thesis by blast
qed

lemma insertAll_Cons:
  assumes "insertAll (rec # recs) rid this w = Some (rids, this', w')"
  obtains outRid this1 w1 rids1 where
    "InsertFileScan_insertRecord rec NULLRID rid this w = Ret (OK, outRid, this1, w1)"
    "insertAll recs rid this1 w1 = Some (rids1, this', w')" "rids = outRid # rids1"
proof (cases "InsertFileScan_insertRecord rec NULLRID rid this w")
  case (Ret x)
  obtain status outRid this1 w1 where x: "x = (status, outRid, this1, w1)" by (cases x)
  from assms Ret x have ok: "status = OK" by (simp split: if_splits)
  from assms Ret x ok obtain rids1 where
    "insertAll recs rid this1 w1 = Some (rids1, this', w')" "rids = outRid # rids1"
    by (cases "insertAll recs rid this1 w1") auto
  with Ret x ok that show thesis by blast
next
  case Undefined
  with assms show thesis by simp
next
  case OutOfFuel
  with assms show thesis by simp
qed

lemma insertAll_pageCnt:
  "insertAll recs rid this w = Some (rids, this', w') \<Longrightarrow> headerPageNo this = 0 \<Longrightarrow>
   hdrAt w (filePtr this) 0 = Some hdr \<Longrightarrow> pageCnt hdr = dataPageCount w (filePtr this) \<Longrightarrow>
     filePtr this' = filePtr this \<and> headerPageNo this' = 0 \<and>
     (\<exists>hdr'. hdrAt w' (filePtr this) 0 = Some hdr' \<and> pageCnt hdr' = dataPageCount w' (filePtr this))"
proof (induction recs arbitrary: this w hdr rids)
  case Nil
  then show ?case by simp
next
  case (Cons rec recs)
  from Cons.prems(1) obtain outRid this1 w1 rids1 where
    ir: "InsertFileScan_insertRecord rec NULLRID rid this w = Ret (OK, outRid, this1, w1)"
    and rest: "insertAll recs rid this1 w1 = Some (rids1, this', w')"
    by (rule insertAll_Cons)
  from insertRecord_files [OF ir Cons.prems(2)]
  have h1: "filePtr this1 = filePtr this" "headerPageNo this1 = 0" by simp_all
  from insert_pageCnt [OF ir Cons.prems(2) Cons.prems(3,4)] obtain hdr1 where
    "hdrAt w1 (filePtr this1) 0 = Some hdr1" "pageCnt hdr1 = dataPageCount w1 (filePtr this1)"
    unfolding h1 by blast
  from Cons.IH [OF rest h1(2) this] show ?case unfolding h1 .
qed

lemma twoPageCounts:
  "map_option pageCnt (hdrAt twoPageWorld (filePtr twoPageFile) (headerPageNo twoPageFile)) = Some 2"
  "dataPageCount twoPageWorld ''t'' = 2"
  "reachablePages twoPageWorld ''t'' = [1]"
  by (simp_all add: reachablePages_def dataPageCount_def numeral_3_eq_3 sampleDefs bufDefs pageDefs)

lemma savedTwo:
  "insertAll [bigRecord, bigRecord] NULLRID openedFile savedOpenedWorld =
     Some ([\<lparr>pageNo = 1, slotNo = 0\<rparr>, \<lparr>pageNo = 2, slotNo = 0\<rparr>], twoPageFile,
           savedTwoPageWorld)"
  by (simp add: insertDefs sampleDefs bufDefs pageDefs)

lemma savedTwoClosed: "InsertFileScan_dtor twoPageFile savedTwoPageWorld = unsavedTwoPageWorld"
  by (simp add: InsertFileScan_dtor_def HeapFile_dtor_def sampleDefs bufDefs)

lemma lostTwo:
  "InsertFileScan_ctor ''t'' OK blankFile (reuseFrames unsavedTwoPageWorld ''t'') =
     Ret (OK, openedFile, lostTwoPageWorld)"
  by (simp add: InsertFileScan_ctor_def HeapFile_ctor_def sampleDefs bufDefs)

lemma lostTwoCounts:
  "map_option pageCnt (hdrAt lostTwoPageWorld (filePtr openedFile) (headerPageNo openedFile)) = Some 1"
  "dataPageCount lostTwoPageWorld ''t'' = 2"
  by (simp_all add: dataPageCount_def sampleDefs bufDefs)

text \<open>
  Claim C2 as stated fails. After \<open>createHeapFile\<close>, \<open>header.pageCnt\<close> is 1 and one
  data page is reached from \<open>header.firstPage\<close>: \<open>pageCnt\<close> is not 1 plus the number of
  pages reached. After two records of 600 bytes have been inserted, \<open>header.pageCnt\<close>
  is 2 and the file has two data pages, but only the first is reached from
  \<open>header.firstPage\<close>: \<open>pageCnt\<close> is not the number of pages reached either. And
  when the two records are inserted into the file as written to the disk, the inserting
  handle is destroyed and the frames are taken back, a handle that opens the file reads
  \<open>header.pageCnt = 1\<close> while the file has two data pages: the increment never
  reached the disk.
\<close>

theorem pageCnt_not_one_plus_reachable:
  "createHeapFile 50 ''t'' (emptyWorld 4) = (OK, freshWorld) \<and>
   InsertFileScan_ctor ''t'' OK blankFile freshWorld = Ret (OK, openedFile, openedWorld) \<and>
   map_option pageCnt (hdrAt openedWorld (filePtr openedFile) (headerPageNo openedFile)) = Some 1 \<and>
   reachablePages openedWorld ''t'' = [1] \<and>
   map_option pageCnt (hdrAt openedWorld (filePtr openedFile) (headerPageNo openedFile))
     \<noteq> Some (1 + int (length (reachablePages openedWorld ''t''))) \<and>
   insertAll [bigRecord, bigRecord] NULLRID openedFile openedWorld =
     Some ([\<lparr>pageNo = 1, slotNo = 0\<rparr>, \<lparr>pageNo = 2, slotNo = 0\<rparr>], twoPageFile, twoPageWorld) \<and>
   map_option pageCnt (hdrAt twoPageWorld (filePtr twoPageFile) (headerPageNo twoPageFile))
     = Some 2 \<and>
   dataPageCount twoPageWorld ''t'' = 2 \<and>
   reachablePages twoPageWorld ''t'' = [1] \<and>
   map_option pageCnt (hdrAt twoPageWorld (filePtr twoPageFile) (headerPageNo twoPageFile))
     \<noteq> Some (int (length (reachablePages twoPageWorld ''t''))) \<and>
   reuseFrames freshWorld ''t'' = savedWorld \<and>
   InsertFileScan_ctor ''t'' OK blankFile savedWorld = Ret (OK, openedFile, savedOpenedWorld) \<and>
   insertAll [bigRecord, bigRecord] NULLRID openedFile savedOpenedWorld =
     Some ([\<lparr>pageNo = 1, slotNo = 0\<rparr>, \<lparr>pageNo = 2, slotNo = 0\<rparr>], twoPageFile,
           savedTwoPageWorld) \<and>
   InsertFileScan_dtor twoPageFile savedTwoPageWorld = unsavedTwoPageWorld \<and>
   InsertFileScan_ctor ''t'' OK blankFile (reuseFrames unsavedTwoPageWorld ''t'') =
     Ret (OK, openedFile, lostTwoPageWorld) \<and>
   map_option pageCnt (hdrAt lostTwoPageWorld (filePtr openedFile) (headerPageNo openedFile))
     = Some 1 \<and>
   dataPageCount lostTwoPageWorld ''t'' = 2"
proof -
  have a: "map_option pageCnt (hdrAt openedWorld (filePtr openedFile) (headerPageNo openedFile)) = Some 1"
    and b: "reachablePages openedWorld ''t'' = [1]"
    by (simp_all add: reachablePages_def numeral_2_eq_2 sampleDefs bufDefs pageDefs)
  have c: "map_option pageCnt (hdrAt openedWorld (filePtr openedFile) (headerPageNo openedFile))
     \<noteq> Some (1 + int (length (reachablePages openedWorld ''t'')))"
    unfolding a b by simp
  have d: "map_option pageCnt (hdrAt twoPageWorld (filePtr twoPageFile) (headerPageNo twoPageFile))
     \<noteq> Some (int (length (reachablePages twoPageWorld ''t'')))"
    unfolding twoPageCounts by simp
  show ?thesis
    by (intro conjI created openedInsert insertedTwo a b c d twoPageCounts savedFresh
          savedOpened savedTwo savedTwoClosed lostTwo lostTwoCounts)
qed

text \<open>
  Claim C2, amended. After \<open>createHeapFile\<close> and any sequence of \<open>insertRecord\<close>
  calls on an inserting handle opened on the new file, each of them returning \<open>OK\<close>,
  \<open>header.pageCnt\<close>, read through that handle, is the number of data pages of the file;
  the header page is not counted. After 500 records of length 40 have been inserted into
  the new file in this way, \<open>header.pageCnt\<close> is 20, the file has 20 data pages and
  \<open>header.recCnt\<close> is 500.
\<close>

theorem pageCnt_counts_data_pages:
  "(createHeapFile M name w0 = (OK, w1) \<and>
    InsertFileScan_ctor name OK this0 w1 = Ret (OK, this1, w2) \<and>
    insertAll recs rid this1 w2 = Some (rids, this2, w3)
      \<longrightarrow> map_option pageCnt (hdrAt w3 (filePtr this2) (headerPageNo this2))
            = Some (dataPageCount w3 name)) \<and>
   createHeapFile 50 ''t'' (emptyWorld 4) = (OK, freshWorld) \<and>
   InsertFileScan_ctor ''t'' OK blankFile freshWorld = Ret (OK, openedFile, openedWorld) \<and>
   (\<exists>rids this w.
      insertAll (replicate 500 (replicate 40 0)) rid' openedFile openedWorld = Some (rids, this, w) \<and>
      length rids = 500 \<and> getRecCnt this w = Ret 500 \<and>
      map_option pageCnt (hdrAt w (filePtr this) (headerPageNo this)) = Some 20 \<and>
      dataPageCount w ''t'' = 20)"
proof -
  have general: "map_option pageCnt (hdrAt w3 (filePtr this2) (headerPageNo this2))
            = Some (dataPageCount w3 name)"
    if c: "createHeapFile M name w0 = (OK, w1)"
      and o: "InsertFileScan_ctor name OK this0 w1 = Ret (OK, this1, w2)"
      and r: "insertAll recs rid this1 w2 = Some (rids, this2, w3)"
    for M name w0 w1 this0 this1 w2 recs rid rids and this2 :: HeapFile and w3
  proof -
    from InsertFileScan_ctor_OK [OF o]
    have f: "files w2 = files w1" and h: "filePtr this1 = name" "headerPageNo this1 = 0"
      by simp_all
    from created_counts [OF c] obtain hdr where
      "hdrAt w1 name 0 = Some hdr" "pageCnt hdr = dataPageCount w1 name" by blast
    with h have "hdrAt w2 (filePtr this1) 0 = Some hdr"
      "pageCnt hdr = dataPageCount w2 (filePtr this1)"
      by (simp_all add: hdrAt_files [OF f] dataPageCount_files [OF f])
    from insertAll_pageCnt [OF r h(2) this] obtain hdr' where
      e: "filePtr this2 = filePtr this1" "headerPageNo this2 = 0"
        "hdrAt w3 (filePtr this1) 0 = Some hdr'" "pageCnt hdr' = dataPageCount w3 (filePtr this1)"
      by blast
    show ?thesis unfolding e(1,2) e(3) using e(4) h(1) by simp
  qed
  have imp: "createHeapFile M name w0 = (OK, w1) \<and>
    InsertFileScan_ctor name OK this0 w1 = Ret (OK, this1, w2) \<and>
    insertAll recs rid this1 w2 = Some (rids, this2, w3)
      \<longrightarrow> map_option pageCnt (hdrAt w3 (filePtr this2) (headerPageNo this2))
            = Some (dataPageCount w3 name)"
    using general by blast
  have len: "int 40 \<le> PAGESIZE - DPFIXED" by (simp add: PAGESIZE_def DPFIXED_def)
  from insertAll_appending [OF appending_opened len, of "replicate 40 0" 500 rid']
  obtain rids this w where
    i: "insertAll (replicate 500 (replicate 40 0)) rid' openedFile openedWorld = Some (rids, this, w)"
    and l: "length rids = 500"
    and a: "appending (fst ((fill (int 40) ^^ 500) (1, 1004)))
              (snd ((fill (int 40) ^^ 500) (1, 1004))) (0 + int 500) this w"
    by auto
  from a have "appending 20 4 500 this w" using fill500 by simp
  then obtain ps hdr pg where "filePtr this = ''t''" "headerPageNo this = 0"
     "files w ''t'' = Some ps" "length ps = Suc 20"
    "ps ! 0 = Hdr hdr" "pageCnt hdr = int 20" "recCnt hdr = 500"
    by (rule appendingD)
  then have g: "getRecCnt this w = Ret 500"
    and p: "map_option pageCnt (hdrAt w (filePtr this) (headerPageNo this)) = Some 20"
    by (simp_all add: getRecCnt_def hdrAt_def pageAt_def)
  from general [OF created openedInsert i] p have d: "dataPageCount w ''t'' = 20" by simp
  from i l g p d have inst: "\<exists>rids this w.
      insertAll (replicate 500 (replicate 40 0)) rid' openedFile openedWorld = Some (rids, this, w) \<and>
      length rids = 500 \<and> getRecCnt this w = Ret 500 \<and>
      map_option pageCnt (hdrAt w (filePtr this) (headerPageNo this)) = Some 20 \<and>
      dataPageCount w ''t'' = 20"
    by blast
  show ?thesis
    by (rule conjI [OF imp conjI [OF created conjI [OF openedInsert inst]]])
qed

theorem pageCnt_counts_data_pages_witness:
  "createHeapFile 50 ''t'' (emptyWorld 4) = (OK, freshWorld) \<and>
   InsertFileScan_ctor ''t'' OK blankFile freshWorld = Ret (OK, openedFile, openedWorld) \<and>
   insertAll [bigRecord, bigRecord] NULLRID openedFile openedWorld =
     Some ([\<lparr>pageNo = 1, slotNo = 0\<rparr>, \<lparr>pageNo = 2, slotNo = 0\<rparr>], twoPageFile, twoPageWorld) \<and>
   map_option pageCnt (hdrAt twoPageWorld (filePtr twoPageFile) (headerPageNo twoPageFile))
     = Some (dataPageCount twoPageWorld ''t'') \<and>
   dataPageCount twoPageWorld ''t'' = 2"
proof -
  from pageCnt_counts_data_pages
    [THEN conjunct1, of 50 "''t''" "emptyWorld 4" freshWorld blankFile openedFile openedWorld
       "[bigRecord, bigRecord]" NULLRID
       "[\<lparr>pageNo = 1, slotNo = 0\<rparr>, \<lparr>pageNo = 2, slotNo = 0\<rparr>]" twoPageFile twoPageWorld]
    created openedInsert insertedTwo
  have "map_option pageCnt (hdrAt twoPageWorld (filePtr twoPageFile) (headerPageNo twoPageFile))
     = Some (dataPageCount twoPageWorld ''t'')" by blast
  then show ?thesis
    by (intro conjI created openedInsert insertedTwo twoPageCounts(2))
qed

subsection \<open>startScan\<close>

text \<open>
  Claim C9. \<open>startScan\<close> with no filter bytes returns \<open>OK\<close> and disables the predicate.
  With filter bytes it returns \<open>BADSCANPARM\<close> exactly when the offset is negative, or the
  length is below 1, or the type is none of \<open>STRING\<close>, \<open>INTEGER\<close>, \<open>FLOAT\<close>, or the type
  is \<open>INTEGER\<close> and the length is not \<open>sizeof(int)\<close>, or the type is \<open>FLOAT\<close> and the
  length is not \<open>sizeof(float)\<close>, or the operator is none of the six; it then leaves the
  handle as it was. Otherwise it returns \<open>OK\<close> and stores the predicate. In every case the
  cursor (\<open>curRec\<close>, \<open>curPageNo\<close>, \<open>curPage\<close>) is unchanged.
\<close>

theorem startScan_contract:
  "startScan off len ty None opr this = (OK, this\<lparr>filter' := None\<rparr>) \<and>
   ((fst (startScan off len ty (Some f) opr this) = BADSCANPARM) =
      (off < 0 \<or> len < 1 \<or> (ty \<noteq> STRING \<and> ty \<noteq> INTEGER \<and> ty \<noteq> FLOAT) \<or>
       (ty = INTEGER \<and> len \<noteq> sizeof_int) \<or> (ty = FLOAT \<and> len \<noteq> sizeof_float) \<or>
       (opr \<noteq> LT \<and> opr \<noteq> LTE \<and> opr \<noteq> EQ \<and> opr \<noteq> GTE \<and> opr \<noteq> GT \<and> opr \<noteq> NE))) \<and>
   (fst (startScan off len ty (Some f) opr this) = BADSCANPARM \<longrightarrow>
      snd (startScan off len ty (Some f) opr this) = this) \<and>
   (fst (startScan off len ty (Some f) opr this) \<noteq> BADSCANPARM \<longrightarrow>
      startScan off len ty (Some f) opr this =
        (OK, this\<lparr>offset := off, length' := len, type := ty, filter' := Some f, op := opr\<rparr>)) \<and>
   curRec (snd (startScan off len ty flt opr this)) = curRec this \<and>
   curPageNo (snd (startScan off len ty flt opr this)) = curPageNo this \<and>
   curPage (snd (startScan off len ty flt opr this)) = curPage this"
  by (cases flt) (auto simp: startScan_def)

theorem startScan_contract_witness:
  "startScan 0 4 INTEGER (Some [1, 0, 0, 0]) LT blankScan =
     (OK, blankScan\<lparr>offset := 0, length' := 4, type := INTEGER,
                    filter' := Some [1, 0, 0, 0], op := LT\<rparr>) \<and>
   fst (startScan 0 3 INTEGER (Some [1, 0, 0, 0]) LT blankScan) = BADSCANPARM \<and>
   fst (startScan 0 4 INTEGER (Some [1, 0, 0, 0]) (OtherOperator 9) blankScan) = BADSCANPARM"
  using startScan_contract [of 0 4 INTEGER LT blankScan "[1, 0, 0, 0]" None]
        startScan_contract [of 0 3 INTEGER LT blankScan "[1, 0, 0, 0]" None]
        startScan_contract [of 0 4 INTEGER "OtherOperator 9" blankScan "[1, 0, 0, 0]" None]
  by (simp add: sizeof_int_def)

subsection \<open>matchRec\<close>

text \<open>
  As long as the mathematical difference of the two integers fits in 32 bits, the sign that
  \<open>matchRec\<close> compares is the sign of that difference.
\<close>

lemma intDiff_exact:
  "- (2 ^ 31) \<le> sint iattr - sint ifltr \<Longrightarrow> sint iattr - sint ifltr < 2 ^ 31 \<Longrightarrow>
     intDiff iattr ifltr = signOf (sint iattr - sint ifltr)"
  by (simp add: intDiff_def sint_word_ariths signed_take_bit_int_eq_self)

text \<open>
  Claim C7. With the predicate \<open>INTEGER\<close>, \<open>LT\<close>, filter bytes \<open>01 00 00 00\<close> (the
  integer 1) and the record bytes \<open>00 00 00 80\<close> (the least 32-bit integer), the attribute
  is less than the filter value and \<open>matchRec\<close> returns false: the 32-bit difference
  \<open>iattr - ifltr\<close> wraps around to a positive number.
\<close>

theorem matchRec_int_wraps:
  "matchRec (intPredicate LT [1, 0, 0, 0]) [0, 0, 0, 0x80] = Ret False \<and>
   sint (memcpyInt [0, 0, 0, 0x80]) = - 2147483648 \<and>
   sint (memcpyInt [1, 0, 0, 0]) = 1"
  by (simp add: intPredicate_def startScan_def sizeof_int_def blankScan_def matchRec_def
        memcpyInt_def intDiff_def signOf_def holds_def)

subsection \<open>insertRecord\<close>

text \<open>
  Claim C4. A new file is created and opened, and the record \<open>01 02 03\<close> is inserted.
  \<open>insertRecord\<close> returns \<open>OK\<close> and the RID of page 1, slot 0, \<open>header.recCnt\<close> goes
  from 0 to 1, \<open>curRec\<close> is that RID and \<open>curDirtyFlag\<close> is set; \<open>hdrDirtyFlag\<close> is
  false before the call and false after it. (\<open>insertRecord_hdrDirtyFlag\<close>: no call of
  \<open>insertRecord\<close> changes the flag; \<open>deleteRecord_hdrDirtyFlag\<close>: \<open>deleteRecord\<close>
  sets it.)
\<close>

theorem insertRecord_leaves_hdrDirtyFlag:
  "createHeapFile 50 ''t'' (emptyWorld 4) = (OK, freshWorld) \<and>
   InsertFileScan_ctor ''t'' OK blankFile freshWorld = Ret (OK, openedFile, openedWorld) \<and>
   InsertFileScan_insertRecord [1, 2, 3] NULLRID NULLRID openedFile openedWorld =
     Ret (OK, \<lparr>pageNo = 1, slotNo = 0\<rparr>, insertedFile, insertedWorld) \<and>
   getRecCnt openedFile openedWorld = Ret 0 \<and>
   getRecCnt insertedFile insertedWorld = Ret 1 \<and>
   curRec insertedFile = \<lparr>pageNo = 1, slotNo = 0\<rparr> \<and>
   curDirtyFlag insertedFile \<and>
   \<not> hdrDirtyFlag openedFile \<and>
   \<not> hdrDirtyFlag insertedFile"
proof -
  have "getRecCnt openedFile openedWorld = Ret 0" "getRecCnt insertedFile insertedWorld = Ret 1"
    "curRec insertedFile = \<lparr>pageNo = 1, slotNo = 0\<rparr>" "curDirtyFlag insertedFile"
    "\<not> hdrDirtyFlag openedFile" "\<not> hdrDirtyFlag insertedFile"
    by (simp_all add: getRecCnt_def sampleDefs bufDefs)
  then show ?thesis by (intro conjI created openedInsert insertedOne)
qed

text \<open>
  Claim C10. Let the first page-layer insert return \<open>NOSPACE\<close>, and let the unpin of
  the current page and the allocation of the new page succeed. Whatever status
  \<open>status2\<close> the retried page-layer insert returns, \<open>insertRecord\<close> returns \<open>OK\<close>
  with \<open>outRid\<close> the value \<open>rid2\<close> that the retried insert left in \<open>rid\<close>; \<open>curRec\<close>
  is \<open>rid2\<close>, the new page is the current page and is flagged dirty, and the header has
  the new page as last page, \<open>pageCnt\<close> incremented and \<open>recCnt\<close> incremented.
\<close>

theorem insertRecord_retry_unchecked:
  assumes len: "int (length rec) \<le> PAGESIZE - DPFIXED"
    and hdr: "hdrAt w (filePtr this) (headerPageNo this) = Some hdr"
    and tl: "toLastPage hdr this w = Inr (this1, w1)"
    and p: "curPage this1 = Some p"
    and pg: "dataAt w1 (filePtr this1) p = Some pg"
    and first: "pageInsert pg rec rid = (NOSPACE, rid1, pg1)"
    and up: "unPinPage (putPage w1 (filePtr this1) p (Data pg1)) (filePtr this1)
               (curPageNo this1) (curDirtyFlag this1) = Inr w3"
    and al: "allocPage w3 (filePtr this1) = Inr (newPageNo, w4)"
    and retry: "pageInsert (Page_init newPageNo) rec rid1 = (status2, rid2, pg2)"
  shows "\<exists>this' w'.
     insertRecordWith pageInsert rec outRid rid this w = Ret (OK, rid2, this', w') \<and>
     curRec this' = rid2 \<and> curPage this' = Some newPageNo \<and> curPageNo this' = newPageNo \<and>
     curDirtyFlag this' \<and>
     hdrAt w' (filePtr this') (headerPageNo this') =
       Some (hdr\<lparr>lastPage := newPageNo, pageCnt := pageCnt hdr + 1, recCnt := recCnt hdr + 1\<rparr>)"
proof -
  let ?f = "filePtr this1" and ?h = "headerPageNo this1"
  from toLastPage_Inr [OF tl]
  have f1: "files w1 = files w" and fp: "?f = filePtr this" and hp: "?h = headerPageNo this"
    by simp_all
  have h1: "hdrAt w1 ?f ?h = Some hdr"
    using hdr by (simp add: hdrAt_files [OF f1] fp hp)
  from hdr_not_data [OF h1 pg] have ne: "p \<noteq> ?h" .
  define w2 where "w2 = putPage w1 ?f p (Data pg1)"
  have h2: "hdrAt w2 ?f ?h = Some hdr"
    unfolding w2_def using h1 ne by (rule hdrAt_putPage_other)
  have h3: "hdrAt w3 ?f ?h = Some hdr"
    using h2 by (simp add: hdrAt_files [OF unPinPage_files [OF up [folded w2_def]]])
  from hdrAt_allocPage [OF al h3] have h4: "hdrAt w4 ?f ?h = Some hdr" and nn: "newPageNo \<noteq> ?h"
    by simp_all
  define w5 where "w5 = putPage w4 ?f newPageNo (Data (Page_init newPageNo))"
  have h5: "hdrAt w5 ?f ?h = Some hdr"
    unfolding w5_def using h4 nn by (rule hdrAt_putPage_other)
  define hdr1 where "hdr1 = hdr\<lparr>lastPage := newPageNo, pageCnt := pageCnt hdr + 1\<rparr>"
  define w6 where "w6 = putPage w5 ?f ?h (Hdr hdr1)"
  have h6: "hdrAt w6 ?f ?h = Some hdr1"
    unfolding w6_def using h5 by (rule hdrAt_putPage_same)
  define w7 where "w7 = putPage w6 ?f newPageNo (Data pg2)"
  have h7: "hdrAt w7 ?f ?h = Some hdr1"
    unfolding w7_def using h6 nn by (rule hdrAt_putPage_other)
  define this2 where "this2 = this1\<lparr>curPage := Some newPageNo, curPageNo := newPageNo,
                         curDirtyFlag := False, curRec := NULLRID\<rparr>"
  define w8 where "w8 = putPage w7 ?f ?h (Hdr (hdr1\<lparr>recCnt := recCnt hdr1 + 1\<rparr>))"
  have h8: "hdrAt w8 ?f ?h = Some (hdr1\<lparr>recCnt := recCnt hdr1 + 1\<rparr>)"
    unfolding w8_def using h7 by (rule hdrAt_putPage_same)
  have cr: "countRecord rid2 this2 w7 =
      Ret (OK, rid2, this2\<lparr>curRec := rid2, curDirtyFlag := True\<rparr>, w8)"
    using h7 by (simp add: countRecord_def this2_def w8_def)
  have "insertRecordWith pageInsert rec outRid rid this w = countRecord rid2 this2 w7"
    using len hdr tl p pg first up al retry h5 [unfolded w5_def]
    by (simp add: insertRecordWith_def Let_def this2_def w7_def w6_def w5_def hdr1_def)
  with cr have "insertRecordWith pageInsert rec outRid rid this w =
      Ret (OK, rid2, this2\<lparr>curRec := rid2, curDirtyFlag := True\<rparr>, w8)"
    by simp
  moreover have "hdrAt w8 (filePtr (this2\<lparr>curRec := rid2, curDirtyFlag := True\<rparr>))
       (headerPageNo (this2\<lparr>curRec := rid2, curDirtyFlag := True\<rparr>)) =
       Some (hdr\<lparr>lastPage := newPageNo, pageCnt := pageCnt hdr + 1, recCnt := recCnt hdr + 1\<rparr>)"
    using h8 by (simp add: this2_def hdr1_def)
  moreover have "curRec (this2\<lparr>curRec := rid2, curDirtyFlag := True\<rparr>) = rid2"
    "curPage (this2\<lparr>curRec := rid2, curDirtyFlag := True\<rparr>) = Some newPageNo"
    "curPageNo (this2\<lparr>curRec := rid2, curDirtyFlag := True\<rparr>) = newPageNo"
    "curDirtyFlag (this2\<lparr>curRec := rid2, curDirtyFlag := True\<rparr>)"
    by (simp_all add: this2_def)
  ultimately show ?thesis by blast
qed

theorem insertRecord_retry_unchecked_witness:
  "insertRecordWith neverRoom [1, 2, 3] NULLRID \<lparr>pageNo = 7, slotNo = 7\<rparr> openedFile openedWorld =
     Ret (OK, \<lparr>pageNo = 7, slotNo = 7\<rparr>,
          openedFile\<lparr>curPage := Some 2, curPageNo := 2,
                     curRec := \<lparr>pageNo = 7, slotNo = 7\<rparr>, curDirtyFlag := True\<rparr>,
          \<lparr>files = [''t'' \<mapsto> [Hdr (freshHdr\<lparr>lastPage := 2, pageCnt := 2, recCnt := 1\<rparr>),
                              Data (Page_init 1), Data (Page_init 2)]],
           disk = (\<lambda>_. [])(''t'' := [Raw, Raw, Raw]), marked = [(''t'', 0), (''t'', 1)],
           numBufs = 4, pinned = [(''t'', 2), (''t'', 0)]\<rparr>) \<and>
   neverRoom (Page_init 2) [1, 2, 3] \<lparr>pageNo = 7, slotNo = 7\<rparr> =
     (NOSPACE, \<lparr>pageNo = 7, slotNo = 7\<rparr>, Page_init 2)"
proof -
  have e: "insertRecordWith neverRoom [1, 2, 3] NULLRID \<lparr>pageNo = 7, slotNo = 7\<rparr> openedFile openedWorld =
     Ret (OK, \<lparr>pageNo = 7, slotNo = 7\<rparr>,
          openedFile\<lparr>curPage := Some 2, curPageNo := 2,
                     curRec := \<lparr>pageNo = 7, slotNo = 7\<rparr>, curDirtyFlag := True\<rparr>,
          \<lparr>files = [''t'' \<mapsto> [Hdr (freshHdr\<lparr>lastPage := 2, pageCnt := 2, recCnt := 1\<rparr>),
                              Data (Page_init 1), Data (Page_init 2)]],
           disk = (\<lambda>_. [])(''t'' := [Raw, Raw, Raw]), marked = [(''t'', 0), (''t'', 1)],
           numBufs = 4, pinned = [(''t'', 2), (''t'', 0)]\<rparr>)"
    by (simp add: insertRecordWith_def toLastPage_def countRecord_def neverRoom_def
          sampleDefs bufDefs pageDefs)
  have "\<exists>this' w'.
     insertRecordWith neverRoom [1, 2, 3] NULLRID \<lparr>pageNo = 7, slotNo = 7\<rparr> openedFile openedWorld
       = Ret (OK, \<lparr>pageNo = 7, slotNo = 7\<rparr>, this', w') \<and>
     curRec this' = \<lparr>pageNo = 7, slotNo = 7\<rparr> \<and> curPage this' = Some 2 \<and> curPageNo this' = 2 \<and>
     curDirtyFlag this' \<and>
     hdrAt w' (filePtr this') (headerPageNo this') =
       Some (freshHdr\<lparr>lastPage := 2, pageCnt := pageCnt freshHdr + 1,
                       recCnt := recCnt freshHdr + 1\<rparr>)"
  proof (rule insertRecord_retry_unchecked
      [where pageInsert = neverRoom and this = openedFile and w = openedWorld
         and ?this1.0 = openedFile and ?w1.0 = openedWorld and p = 1 and pg = "Page_init 1"
         and ?pg1.0 = "Page_init 1" and ?rid1.0 = "\<lparr>pageNo = 7, slotNo = 7\<rparr>"
         and ?w3.0 = "openedWorld\<lparr>pinned := [(''t'', 0)]\<rparr>" and ?status2.0 = NOSPACE
         and ?pg2.0 = "Page_init 2" and hdr = freshHdr
         and ?w4.0 = "\<lparr>files = [''t'' \<mapsto> [Hdr freshHdr, Data (Page_init 1), Raw]],
                       disk = (\<lambda>_. [])(''t'' := [Raw, Raw, Raw]),
                       marked = [(''t'', 0), (''t'', 1)],
                       numBufs = 4, pinned = [(''t'', 2), (''t'', 0)]\<rparr>"])
  qed (simp_all add: toLastPage_def neverRoom_def sampleDefs bufDefs pageDefs)
  with e show ?thesis by (simp add: neverRoom_def)
qed

subsection \<open>scanNext\<close>

text \<open>
  Claim C1. A new file is created, the record \<open>01 02 03\<close> is inserted and gets the RID
  of page 1, slot 0; the inserting handle is destroyed, the file is opened for a scan with
  no filter. The first \<open>scanNext\<close> returns \<open>OK\<close> and moves \<open>curRec\<close> to the record,
  but \<open>outRid\<close> comes back with the value the caller passed in, for every such value:
  \<open>scanNext\<close> yields no RID. With two records of 600 bytes, inserted with the RIDs of
  page 1, slot 0 and page 2, slot 0, the first \<open>scanNext\<close> moves to the first record and
  the second returns \<open>FILEEOF\<close>: the second page is not linked to the first.
\<close>

theorem scan_after_insert:
  "createHeapFile 50 ''t'' (emptyWorld 4) = (OK, freshWorld) \<and>
   InsertFileScan_ctor ''t'' OK blankFile freshWorld = Ret (OK, openedFile, openedWorld) \<and>
   insertAll [[1, 2, 3]] rid openedFile openedWorld =
     Some ([\<lparr>pageNo = 1, slotNo = 0\<rparr>], insertedFile, insertedWorld) \<and>
   InsertFileScan_dtor insertedFile insertedWorld = storedWorld \<and>
   HeapFileScan_ctor ''t'' OK blankScan storedWorld = Ret (OK, openedScan, insertedWorld) \<and>
   startScan 0 0 STRING None LT openedScan = (OK, openedScan) \<and>
   scanNext (Suc n) outRid nextRid openedScan insertedWorld =
     Ret (OK, outRid, openedScan\<lparr>curRec := \<lparr>pageNo = 1, slotNo = 0\<rparr>\<rparr>, insertedWorld) \<and>
   insertAll [bigRecord, bigRecord] rid openedFile openedWorld =
     Some ([\<lparr>pageNo = 1, slotNo = 0\<rparr>, \<lparr>pageNo = 2, slotNo = 0\<rparr>], twoPageFile, twoPageWorld) \<and>
   HeapFileScan_ctor ''t'' OK blankScan (InsertFileScan_dtor twoPageFile twoPageWorld) =
     Ret (OK, openedScan, twoPageScanWorld) \<and>
   scanNext (Suc n) outRid nextRid openedScan twoPageScanWorld =
     Ret (OK, outRid, openedScan\<lparr>curRec := \<lparr>pageNo = 1, slotNo = 0\<rparr>\<rparr>, twoPageScanWorld) \<and>
   scanNext (Suc n) outRid nextRid (openedScan\<lparr>curRec := \<lparr>pageNo = 1, slotNo = 0\<rparr>\<rparr>)
       twoPageScanWorld =
     Ret (FILEEOF, outRid, openedScan\<lparr>curRec := \<lparr>pageNo = 1, slotNo = 0\<rparr>\<rparr>, twoPageScanWorld)"
proof -
  have a: "insertAll [[1, 2, 3]] rid openedFile openedWorld =
     Some ([\<lparr>pageNo = 1, slotNo = 0\<rparr>], insertedFile, insertedWorld)"
    by (simp add: insertedOne)
  have b: "startScan 0 0 STRING None LT openedScan = (OK, openedScan)"
    by (simp add: startScan_def openedScan_def)
  show ?thesis
    by (intro conjI created openedInsert a closedInsert reopenedForScan b scanOne insertedTwo
          closedTwo scanTwoFirst scanTwoSecond)
qed

text \<open>
  Claim C5. On a file just created, opened for a scan, the first \<open>scanNext\<close> returns the
  page layer's \<open>INVALIDSLOTNO\<close>, not \<open>FILEEOF\<close>, with any filter or none and whatever
  the uninitialised \<open>nextRid\<close> holds: \<open>firstRecord\<close> returns \<open>NORECORDS\<close>, the loop
  leaves a page on \<open>ENDOFPAGE\<close> only, and \<open>getRecord\<close> is called on \<open>nextRid\<close>.
\<close>

theorem scan_of_new_file:
  "createHeapFile 50 ''t'' (emptyWorld 4) = (OK, freshWorld) \<and>
   HeapFileScan_ctor ''t'' OK blankScan freshWorld = Ret (OK, openedScan, openedWorld) \<and>
   scanNext (Suc n) outRid nextRid (snd (startScan off len ty flt opr openedScan)) openedWorld =
     Ret (INVALIDSLOTNO, outRid, snd (startScan off len ty flt opr openedScan), openedWorld)"
  by (intro conjI created openedForScan scanEmpty)

text \<open>
  Claim C8. On the file with one record: \<open>markScan\<close>, then \<open>scanNext\<close> called with
  \<open>outRid = a\<close> returns \<open>OK\<close> and \<open>a\<close>; \<open>resetScan\<close> returns to the marked position;
  \<open>scanNext\<close> called with \<open>outRid = b\<close> returns \<open>OK\<close> and \<open>b\<close>. The cursor
  \<open>curRec\<close> is at the same record after both calls; the RID handed back is whatever the
  caller passed in, so the two differ whenever \<open>a\<close> and \<open>b\<close> do.
\<close>

theorem reset_then_scanNext:
  "HeapFileScan_ctor ''t'' OK blankScan storedWorld = Ret (OK, openedScan, insertedWorld) \<and>
   markScan openedScan = (OK, openedScan\<lparr>markedPageNo := 1, markedRec := NULLRID\<rparr>) \<and>
   scanNext (Suc n) a nextRid (openedScan\<lparr>markedPageNo := 1, markedRec := NULLRID\<rparr>)
       insertedWorld =
     Ret (OK, a, openedScan\<lparr>markedPageNo := 1, markedRec := NULLRID,
                            curRec := \<lparr>pageNo = 1, slotNo = 0\<rparr>\<rparr>, insertedWorld) \<and>
   resetScan (openedScan\<lparr>markedPageNo := 1, markedRec := NULLRID,
                        curRec := \<lparr>pageNo = 1, slotNo = 0\<rparr>\<rparr>) insertedWorld =
     (OK, openedScan\<lparr>markedPageNo := 1, markedRec := NULLRID\<rparr>, insertedWorld) \<and>
   scanNext (Suc n) b nextRid (openedScan\<lparr>markedPageNo := 1, markedRec := NULLRID\<rparr>)
       insertedWorld =
     Ret (OK, b, openedScan\<lparr>markedPageNo := 1, markedRec := NULLRID,
                            curRec := \<lparr>pageNo = 1, slotNo = 0\<rparr>\<rparr>, insertedWorld)"
proof -
  have m: "markScan openedScan = (OK, openedScan\<lparr>markedPageNo := 1, markedRec := NULLRID\<rparr>)"
    by (simp add: markScan_def openedScan_def)
  have s: "scanNext (Suc n) c nextRid (openedScan\<lparr>markedPageNo := 1, markedRec := NULLRID\<rparr>)
       insertedWorld =
     Ret (OK, c, openedScan\<lparr>markedPageNo := 1, markedRec := NULLRID,
                            curRec := \<lparr>pageNo = 1, slotNo = 0\<rparr>\<rparr>, insertedWorld)" for c
    by (simp add: scanNext_def scanPass_def matchRec_def NULLRID_def sampleDefs bufDefs pageDefs)
  have r: "resetScan (openedScan\<lparr>markedPageNo := 1, markedRec := NULLRID,
                        curRec := \<lparr>pageNo = 1, slotNo = 0\<rparr>\<rparr>) insertedWorld =
     (OK, openedScan\<lparr>markedPageNo := 1, markedRec := NULLRID\<rparr>, insertedWorld)"
    by (simp add: resetScan_def NULLRID_def sampleDefs)
  show ?thesis by (intro conjI reopenedForScan m s r)
qed

subsection \<open>A failed pin\<close>

lemma failedGet:
  "HeapFile_getRecord \<lparr>pageNo = 5, slotNo = 0\<rparr> openedFile openedWorld =
     Ret (Inl BADPAGENO, openedFile, openedWorld\<lparr>pinned := [(''t'', 0)]\<rparr>)"
  by (simp add: HeapFile_getRecord_def sampleDefs bufDefs)

lemma endedScan:
  "endScan openedScan openedWorld =
     (OK, openedScan\<lparr>curPage := None, curPageNo := 0, curDirtyFlag := False\<rparr>,
      openedWorld\<lparr>pinned := [(''t'', 0)]\<rparr>)"
  by (simp add: endScan_def sampleDefs bufDefs)

text \<open>
  Claim C6. On the new file, \<open>getRecord\<close> for a RID on page 5, which the file does not
  have, unpins the current page 1, fails to pin page 5 and returns \<open>BADPAGENO\<close>; the
  current page slot of the handle still holds the frame of page 1, which the handle no
  longer has pinned, so that a second unpin of it, as the destructor attempts, fails.
  \<open>endScan\<close>, in the same state, unpins the page and sets the slot to null.
  \<open>insertRecord\<close> and \<open>scanNext\<close> behave like \<open>getRecord\<close>: in a pool of two
  frames, all pinned, \<open>insertRecord\<close> unpins the current page and fails to pin the last
  page, or fails to allocate a new one, and \<open>scanNext\<close>, on a file whose first page is
  linked to the second, fails to pin the next page; each returns \<open>BUFFEREXCEEDED\<close> and
  leaves the current page slot as it was.
\<close>

theorem failed_pin_leaves_curPage_set:
  "pageNo \<lparr>pageNo = 5, slotNo = 0\<rparr> \<noteq> curPageNo openedFile \<and>
   unPinPage openedWorld (filePtr openedFile) (curPageNo openedFile) (curDirtyFlag openedFile) =
     Inr (openedWorld\<lparr>pinned := [(''t'', 0)]\<rparr>) \<and>
   readPage (openedWorld\<lparr>pinned := [(''t'', 0)]\<rparr>) (filePtr openedFile) 5 = Inl BADPAGENO \<and>
   HeapFile_getRecord \<lparr>pageNo = 5, slotNo = 0\<rparr> openedFile openedWorld =
     Ret (Inl BADPAGENO, openedFile, openedWorld\<lparr>pinned := [(''t'', 0)]\<rparr>) \<and>
   curPage openedFile = Some 1 \<and>
   curPage openedFile \<noteq> None \<and>
   unPinPage (openedWorld\<lparr>pinned := [(''t'', 0)]\<rparr>) (filePtr openedFile) (curPageNo openedFile)
       (curDirtyFlag openedFile) = Inl PAGENOTPINNED \<and>
   endScan openedScan openedWorld =
     (OK, openedScan\<lparr>curPage := None, curPageNo := 0, curDirtyFlag := False\<rparr>,
      openedWorld\<lparr>pinned := [(''t'', 0)]\<rparr>) \<and>
   InsertFileScan_insertRecord [1, 2, 3] NULLRID rid openedFile (crowdedWorld 1) =
     Ret (BUFFEREXCEEDED, NULLRID, openedFile,
          (crowdedWorld 1)\<lparr>pinned := [(''t'', 0), (''t'', 1), (''t'', 0)]\<rparr>) \<and>
   InsertFileScan_insertRecord bigRecord NULLRID rid twoPageFile (crowdedWorld 2) =
     Ret (BUFFEREXCEEDED, NULLRID, twoPageFile,
          (crowdedWorld 2)\<lparr>marked := [(''t'', 2), (''t'', 0), (''t'', 1)],
                            pinned := [(''t'', 0), (''t'', 2), (''t'', 0)]\<rparr>) \<and>
   curPage twoPageFile = Some 2 \<and>
   scanNext (Suc n) outRid nextRid (openedScan\<lparr>curRec := \<lparr>pageNo = 1, slotNo = 0\<rparr>\<rparr>)
       linkedWorld =
     Ret (BUFFEREXCEEDED, outRid, openedScan\<lparr>curRec := \<lparr>pageNo = 1, slotNo = 0\<rparr>\<rparr>,
          linkedWorld\<lparr>pinned := [(''t'', 0), (''t'', 1), (''t'', 0)]\<rparr>) \<and>
   curPage (openedScan\<lparr>curRec := \<lparr>pageNo = 1, slotNo = 0\<rparr>\<rparr>) = Some 1"
proof -
  have "pageNo \<lparr>pageNo = 5, slotNo = 0\<rparr> \<noteq> curPageNo openedFile"
    "unPinPage openedWorld (filePtr openedFile) (curPageNo openedFile) (curDirtyFlag openedFile) =
       Inr (openedWorld\<lparr>pinned := [(''t'', 0)]\<rparr>)"
    "readPage (openedWorld\<lparr>pinned := [(''t'', 0)]\<rparr>) (filePtr openedFile) 5 = Inl BADPAGENO"
    "curPage openedFile = Some 1" "curPage openedFile \<noteq> None"
    "unPinPage (openedWorld\<lparr>pinned := [(''t'', 0)]\<rparr>) (filePtr openedFile) (curPageNo openedFile)
       (curDirtyFlag openedFile) = Inl PAGENOTPINNED"
    "curPage twoPageFile = Some 2"
    "curPage (openedScan\<lparr>curRec := \<lparr>pageNo = 1, slotNo = 0\<rparr>\<rparr>) = Some 1"
    by (simp_all add: sampleDefs bufDefs)
  then show ?thesis
    by (intro conjI failedGet endedScan crowdedSwitch crowdedGrow linkedScan)
qed

end
